theory Spec2Isabelle
  imports Complex_Main
begin

section \<open>Shared data shapes (src/lib/llm/types.ts)\<close>

text \<open>
  JavaScript strings are modelled as \<open>string\<close>; one list element stands for one
  UTF-16 code unit, which is what \<open>substring\<close> and string concatenation count.
  JavaScript numbers that carry token counts and HTTP status codes are modelled as
  \<open>int\<close>; \<open>temperature\<close> and \<open>maxTokens\<close> are only compared with constants by the
  schema and are modelled as \<open>real\<close>. An optional field (\<open>undefined\<close> when absent) is
  an \<open>option\<close>.
\<close>

datatype MessageRole = user | assistant | system

text \<open>A message as it arrives, before \<open>MessageRoleSchema\<close> has looked at its role.\<close>

record MessageInput =
  role_in :: string
  content_in :: string

record Message =
  role :: MessageRole
  content :: string

record ChatRequestInput =
  system_in :: "string option"
  messages_in :: "MessageInput list"
  stream_in :: "bool option"
  temperature_in :: "real option"
  maxTokens_in :: "real option"
  model_in :: "string option"

record ChatRequest =
  system_prompt :: "string option"
  messages :: "Message list"
  stream :: bool
  temperature :: real
  maxTokens :: "real option"
  model :: "string option"

record TokenUsage =
  promptTokens :: int
  completionTokens :: int
  totalTokens :: int

text \<open>
  \<open>finishReason\<close> is optional and nullable in the source; both \<open>undefined\<close> and
  \<open>null\<close> are \<open>None\<close> here (every reader of the field treats them alike). The
  OpenAI adapter casts whatever string the backend sent, so the field is a string.
\<close>

record StreamChunk =
  chunk_content :: string
  chunk_done :: bool
  chunk_model :: "string option"
  chunk_usage :: "TokenUsage option"
  chunk_finishReason :: "string option"

record ChatResponse =
  resp_content :: string
  resp_model :: string
  resp_usage :: TokenUsage
  resp_finishReason :: "string option"

subsection \<open>The issues a ZodError of ChatSchema carries\<close>

datatype zod_issue =
    MessagesTooSmall
  | InvalidRole nat
  | TemperatureTooSmall
  | TemperatureTooBig
  | MaxTokensNotPositive

text \<open>What the storage layer can reject a call with.\<close>

datatype db_fault =
    StorageUnavailable
  | UniqueConstraintViolation
  | ForeignKeyViolation
  | RecordNotFound

text \<open>
  Everything the pipeline throws. \<open>LLMAPIError message provider statusCode\<close> and
  \<open>LLMProviderError message\<close> are the two classes of types.ts; \<open>ZodError\<close> is what
  \<open>ChatSchema.parse\<close> throws; \<open>ChatNotFoundError chatId\<close> is the class of
  chatRepo.ts; \<open>PrismaError\<close> is an error of the storage layer; \<open>OtherError\<close> is any
  other thrown value.
\<close>

datatype js_error =
    ZodError "zod_issue list"
  | LLMProviderError string
  | LLMAPIError string string "int option"
  | ChatNotFoundError string
  | PrismaError db_fault
  | OtherError string

subsection \<open>ChatSchema.parse\<close>

definition MessageRoleSchema_parse :: "string \<Rightarrow> MessageRole option" where
  "MessageRoleSchema_parse r =
     (if r = ''user'' then Some user
      else if r = ''assistant'' then Some assistant
      else if r = ''system'' then Some system
      else None)"

text \<open>Issues of the elements of \<open>messages\<close>, each tagged with its index.\<close>

fun message_issues :: "nat \<Rightarrow> MessageInput list \<Rightarrow> zod_issue list" where
  "message_issues i [] = []"
| "message_issues i (m # ms) =
     (case MessageRoleSchema_parse (role_in m) of
        None \<Rightarrow> InvalidRole i # message_issues (Suc i) ms
      | Some _ \<Rightarrow> message_issues (Suc i) ms)"

definition messages_issues :: "MessageInput list \<Rightarrow> zod_issue list" where
  "messages_issues ms =
     (if length ms < 1 then [MessagesTooSmall] else []) @ message_issues 0 ms"

definition temperature_issues :: "real option \<Rightarrow> zod_issue list" where
  "temperature_issues t =
     (case t of
        None \<Rightarrow> []
      | Some x \<Rightarrow> (if x < 0 then [TemperatureTooSmall] else []) @
                  (if 2 < x then [TemperatureTooBig] else []))"

definition maxTokens_issues :: "real option \<Rightarrow> zod_issue list" where
  "maxTokens_issues k =
     (case k of None \<Rightarrow> [] | Some x \<Rightarrow> (if x \<le> 0 then [MaxTokensNotPositive] else []))"

definition MessageSchema_output :: "MessageInput \<Rightarrow> Message" where
  "MessageSchema_output m =
     \<lparr> role = (case MessageRoleSchema_parse (role_in m) of Some r \<Rightarrow> r | None \<Rightarrow> user),
       content = content_in m \<rparr>"

text \<open>
  \<open>ChatSchema.parse\<close>: the keys are checked in the order of the schema, all issues
  are collected, and the parsed value with its defaults (\<open>stream\<close> false,
  \<open>temperature\<close> 0.7) is returned only when there is no issue.
  \<open>MessageSchema_output\<close> is applied only to messages whose role parsed.
\<close>

definition ChatSchema_parse :: "ChatRequestInput \<Rightarrow> js_error + ChatRequest" where
  "ChatSchema_parse inp =
     (let issues = messages_issues (messages_in inp) @
                   temperature_issues (temperature_in inp) @
                   maxTokens_issues (maxTokens_in inp)
      in if issues \<noteq> [] then Inl (ZodError issues)
         else Inr \<lparr> system_prompt = system_in inp,
                    messages = map MessageSchema_output (messages_in inp),
                    stream = (case stream_in inp of None \<Rightarrow> False | Some b \<Rightarrow> b),
                    temperature = (case temperature_in inp of None \<Rightarrow> 0.7 | Some t \<Rightarrow> t),
                    maxTokens = maxTokens_in inp,
                    model = model_in inp \<rparr>)"

text \<open>A validated request handed on as the input of another \<open>parse\<close>.\<close>

definition role_string :: "MessageRole \<Rightarrow> string" where
  "role_string r = (case r of user \<Rightarrow> ''user'' | assistant \<Rightarrow> ''assistant'' | system \<Rightarrow> ''system'')"

definition as_input :: "ChatRequest \<Rightarrow> ChatRequestInput" where
  "as_input r =
     \<lparr> system_in = system_prompt r,
       messages_in = map (\<lambda>m. \<lparr> role_in = role_string (role m), content_in = content m \<rparr>) (messages r),
       stream_in = Some (stream r),
       temperature_in = Some (temperature r),
       maxTokens_in = maxTokens r,
       model_in = model r \<rparr>"

section \<open>Provider adapters\<close>

subsection \<open>JavaScript truthiness\<close>

text \<open>
  \<open>if (s)\<close> and \<open>s || d\<close> on an optional string: \<open>undefined\<close>, \<open>null\<close> and the
  empty string are falsy. \<open>n || 0\<close> on an optional number: absent and \<open>0\<close> are falsy.
\<close>

definition truthy :: "string option \<Rightarrow> bool" where
  "truthy s = (case s of None \<Rightarrow> False | Some x \<Rightarrow> x \<noteq> [])"

definition or_else :: "string option \<Rightarrow> string \<Rightarrow> string" where
  "or_else s d = (case s of None \<Rightarrow> d | Some x \<Rightarrow> if x = [] then d else x)"

definition or_zero :: "int option \<Rightarrow> int" where
  "or_zero n = (case n of None \<Rightarrow> 0 | Some x \<Rightarrow> if x = 0 then 0 else x)"

definition or_null :: "string option \<Rightarrow> string option" where
  "or_null s = (if truthy s then s else None)"

subsection \<open>Process environment, backends and observable effects\<close>

record env =
  LLM_PROVIDER :: "string option"
  OPENAI_API_KEY :: "string option"
  OPENAI_MODEL :: "string option"
  ANTHROPIC_API_KEY :: "string option"
  ANTHROPIC_MODEL :: "string option"

text \<open>
  What a call of a backend SDK can throw: an \<open>APIError\<close> of that SDK with its message
  and optional status, or anything else.
\<close>

datatype backend_error = APIError string "int option" | Thrown string

text \<open>An async iterable of the SDK: the items it yields, then how it ends.\<close>

record 'a backend_stream =
  items :: "'a list"
  failure :: "backend_error option"

record oa_usage =
  prompt_tokens :: int
  completion_tokens :: int
  total_tokens :: int

record oa_delta =
  delta_content :: "string option"

record oa_choice =
  choice_delta :: "oa_delta option"
  choice_finish_reason :: "string option"

record oa_chunk =
  oc_choices :: "oa_choice list"
  oc_model :: string
  oc_usage :: "oa_usage option"

record oa_message_choice =
  mc_content :: "string option"
  mc_finish_reason :: "string option"

record oa_completion =
  cmp_choices :: "oa_message_choice list"
  cmp_model :: string
  cmp_usage :: "oa_usage option"

record oa_params =
  oap_model :: string
  oap_messages :: "(string \<times> string) list"
  oap_temperature :: real
  oap_max_tokens :: "real option"
  oap_stream :: bool

datatype an_block = text_block string | other_block

record an_message =
  am_content :: "an_block list"
  am_model :: string
  am_input_tokens :: int
  am_output_tokens :: int
  am_stop_reason :: "string option"

datatype an_delta = text_delta string | other_delta

text \<open>\<open>message_delta\<close> carries \<open>usage.output_tokens\<close> when it has a usage object.\<close>

datatype an_event =
    content_block_delta an_delta
  | message_delta "int option"
  | message_stop
  | other_event

text \<open>
  The SDK's message stream: its events, how the iteration ends, and what
  \<open>stream.finalMessage()\<close> resolves to (or rejects with).
\<close>

record an_stream =
  an_events :: "an_event list"
  an_failure :: "backend_error option"
  an_finalMessage :: "backend_error + an_message"

record an_params =
  anp_model :: string
  anp_system :: "string option"
  anp_messages :: "(string \<times> string) list"
  anp_temperature :: real
  anp_max_tokens :: real

record backend =
  openai_create :: "oa_params \<Rightarrow> backend_error + oa_completion"
  openai_create_stream :: "oa_params \<Rightarrow> backend_error + oa_chunk backend_stream"
  anthropic_create :: "an_params \<Rightarrow> backend_error + an_message"
  anthropic_stream :: "an_params \<Rightarrow> backend_error + an_stream"

text \<open>
  The effects a run leaves behind, in order: an adapter method was entered
  (provider name, method name), a request went to a backend (provider name), or a line
  was written to the console.
\<close>

datatype effect =
    AdapterCall string string
  | NetworkCall string
  | ConsoleError string
  | ConsoleLog string

text \<open>
  A \<open>ReadableStream<StreamChunk>\<close> as its reader sees it: the chunks enqueued, then
  either the close or the error the controller was given.
\<close>

record chunk_stream =
  chunks :: "StreamChunk list"
  stream_error :: "js_error option"

subsection \<open>OpenAIProvider (module ./openai)\<close>

text \<open>\<open>oa_client\<close> is the SDK client, present exactly when an API key was set.\<close>

record OpenAIProvider =
  oa_client :: "string option"
  oa_defaultModel :: string

definition OpenAIProvider_new :: "env \<Rightarrow> OpenAIProvider" where
  "OpenAIProvider_new e =
     \<lparr> oa_client = (if truthy (OPENAI_API_KEY e) then OPENAI_API_KEY e else None),
       oa_defaultModel = or_else (OPENAI_MODEL e) ''gpt-4o-mini'' \<rparr>"

definition OpenAIProvider_getName :: "OpenAIProvider \<Rightarrow> string" where
  "OpenAIProvider_getName p = ''OpenAI''"

definition OpenAIProvider_isConfigured :: "OpenAIProvider \<Rightarrow> bool" where
  "OpenAIProvider_isConfigured p \<longleftrightarrow> oa_client p \<noteq> None"

definition OpenAIProvider_formatMessages ::
  "string option \<Rightarrow> Message list \<Rightarrow> (string \<times> string) list" where
  "OpenAIProvider_formatMessages sys ms =
     (if truthy sys then [(''system'', or_else sys [])] else []) @
     map (\<lambda>m. (role_string (role m), content m)) ms"

definition openai_not_configured :: js_error where
  "openai_not_configured =
     LLMAPIError ''OpenAI API key not configured. Set OPENAI_API_KEY environment variable.''
       ''OpenAI'' None"

definition openai_error :: "backend_error \<Rightarrow> js_error" where
  "openai_error e =
     (case e of
        APIError msg st \<Rightarrow> LLMAPIError (''OpenAI API error: '' @ msg) ''OpenAI'' st
      | Thrown msg \<Rightarrow> OtherError msg)"

definition openai_usage :: "oa_usage \<Rightarrow> TokenUsage" where
  "openai_usage u =
     \<lparr> promptTokens = prompt_tokens u,
       completionTokens = completion_tokens u,
       totalTokens = total_tokens u \<rparr>"

definition openai_params :: "OpenAIProvider \<Rightarrow> ChatRequest \<Rightarrow> bool \<Rightarrow> oa_params" where
  "openai_params p request streaming =
     \<lparr> oap_model = or_else (model request) (oa_defaultModel p),
       oap_messages = OpenAIProvider_formatMessages (system_prompt request) (messages request),
       oap_temperature = temperature request,
       oap_max_tokens = maxTokens request,
       oap_stream = streaming \<rparr>"

definition openai_response :: "oa_completion \<Rightarrow> js_error + ChatResponse" where
  "openai_response response =
     (case cmp_choices response of
        [] \<Rightarrow> Inl (LLMAPIError ''No response from OpenAI'' ''OpenAI'' None)
      | choice # _ \<Rightarrow>
          Inr \<lparr> resp_content = or_else (mc_content choice) [],
                resp_model = cmp_model response,
                resp_usage =
                  \<lparr> promptTokens = or_zero (map_option prompt_tokens (cmp_usage response)),
                    completionTokens = or_zero (map_option completion_tokens (cmp_usage response)),
                    totalTokens = or_zero (map_option total_tokens (cmp_usage response)) \<rparr>,
                resp_finishReason = mc_finish_reason choice \<rparr>)"

definition OpenAIProvider_chat ::
  "OpenAIProvider \<Rightarrow> backend \<Rightarrow> ChatRequestInput \<Rightarrow> (js_error + ChatResponse) \<times> effect list" where
  "OpenAIProvider_chat p b requestInput =
     (case oa_client p of
        None \<Rightarrow> (Inl openai_not_configured, [AdapterCall ''OpenAI'' ''chat''])
      | Some _ \<Rightarrow>
          (case ChatSchema_parse requestInput of
             Inl z \<Rightarrow> (Inl z, [AdapterCall ''OpenAI'' ''chat''])
           | Inr request \<Rightarrow>
               (case openai_create b (openai_params p request False) of
                  Inl err \<Rightarrow> Inl (openai_error err)
                | Inr response \<Rightarrow> openai_response response,
                [AdapterCall ''OpenAI'' ''chat'', NetworkCall ''OpenAI''])))"

text \<open>
  \<open>chunk.choices[0]?.delta?.content\<close> and \<open>chunk.choices[0]?.finish_reason\<close>.
\<close>

definition oa_delta_content :: "oa_chunk \<Rightarrow> string option" where
  "oa_delta_content chunk =
     (case oc_choices chunk of
        [] \<Rightarrow> None
      | c # _ \<Rightarrow> (case choice_delta c of None \<Rightarrow> None | Some d \<Rightarrow> delta_content d))"

definition oa_finish_reason :: "oa_chunk \<Rightarrow> string option" where
  "oa_finish_reason chunk =
     (case oc_choices chunk of [] \<Rightarrow> None | c # _ \<Rightarrow> choice_finish_reason c)"

text \<open>
  The body of the \<open>for await\<close> loop of \<open>chatStream\<close>: the chunks one backend chunk
  makes the controller enqueue.
\<close>

definition openai_chunk_out :: "oa_chunk \<Rightarrow> StreamChunk list" where
  "openai_chunk_out chunk =
     (if truthy (oa_delta_content chunk)
      then [\<lparr> chunk_content = or_else (oa_delta_content chunk) [], chunk_done = False,
              chunk_model = Some (oc_model chunk), chunk_usage = None,
              chunk_finishReason = None \<rparr>]
      else []) @
     (if truthy (oa_finish_reason chunk)
      then [\<lparr> chunk_content = [], chunk_done = True,
              chunk_model = Some (oc_model chunk),
              chunk_usage = map_option openai_usage (oc_usage chunk),
              chunk_finishReason = oa_finish_reason chunk \<rparr>]
      else [])"

text \<open>
  The \<open>start\<close> callback of the stream \<open>chatStream\<close> returns, given what the
  streaming request to the backend came to.
\<close>

definition openai_start :: "backend_error + oa_chunk backend_stream \<Rightarrow> chunk_stream" where
  "openai_start created =
     (case created of
        Inl err \<Rightarrow> \<lparr> chunks = [], stream_error = Some (openai_error err) \<rparr>
      | Inr st \<Rightarrow>
          \<lparr> chunks = concat (map openai_chunk_out (items st)),
            stream_error = map_option openai_error (failure st) \<rparr>)"

definition OpenAIProvider_chatStream ::
  "OpenAIProvider \<Rightarrow> backend \<Rightarrow> ChatRequestInput \<Rightarrow> (js_error + chunk_stream) \<times> effect list" where
  "OpenAIProvider_chatStream p b requestInput =
     (case oa_client p of
        None \<Rightarrow> (Inl openai_not_configured, [AdapterCall ''OpenAI'' ''chatStream''])
      | Some _ \<Rightarrow>
          (case ChatSchema_parse requestInput of
             Inl z \<Rightarrow> (Inl z, [AdapterCall ''OpenAI'' ''chatStream''])
           | Inr request \<Rightarrow>
               (Inr (openai_start (openai_create_stream b (openai_params p request True))),
                [AdapterCall ''OpenAI'' ''chatStream'', NetworkCall ''OpenAI''])))"

subsection \<open>AnthropicProvider (src/lib/llm/anthropic.ts)\<close>

record AnthropicProvider =
  an_apiKey :: "string option"
  an_client :: "string option"
  an_defaultModel :: string

definition AnthropicProvider_new :: "env \<Rightarrow> AnthropicProvider" where
  "AnthropicProvider_new e =
     (let apiKey = (if truthy (ANTHROPIC_API_KEY e) then ANTHROPIC_API_KEY e else None)
      in \<lparr> an_apiKey = apiKey,
           an_client = apiKey,
           an_defaultModel = or_else (ANTHROPIC_MODEL e) ''claude-3-5-sonnet-20241022'' \<rparr>)"

definition AnthropicProvider_getName :: "AnthropicProvider \<Rightarrow> string" where
  "AnthropicProvider_getName p = ''Anthropic''"

definition AnthropicProvider_isConfigured :: "AnthropicProvider \<Rightarrow> bool" where
  "AnthropicProvider_isConfigured p \<longleftrightarrow> an_apiKey p \<noteq> None \<and> an_client p \<noteq> None"

definition AnthropicProvider_formatMessages :: "Message list \<Rightarrow> (string \<times> string) list" where
  "AnthropicProvider_formatMessages ms =
     map (\<lambda>m. (role_string (role m), content m)) (filter (\<lambda>m. role m \<noteq> system) ms)"

definition mapStopReason :: "string option \<Rightarrow> string option" where
  "mapStopReason reason =
     (if \<not> truthy reason then None
      else if reason = Some ''end_turn'' then Some ''stop''
      else if reason = Some ''max_tokens'' then Some ''length''
      else if reason = Some ''stop_sequence'' then Some ''stop''
      else None)"

definition anthropic_not_configured :: js_error where
  "anthropic_not_configured =
     LLMAPIError ''Anthropic API key not configured. Set ANTHROPIC_API_KEY environment variable.''
       ''Anthropic'' None"

definition anthropic_error :: "backend_error \<Rightarrow> js_error" where
  "anthropic_error e =
     (case e of
        APIError msg st \<Rightarrow> LLMAPIError msg ''Anthropic'' st
      | Thrown msg \<Rightarrow> OtherError msg)"

text \<open>\<open>request.maxTokens || 4096\<close>: an absent or zero limit becomes 4096.\<close>

definition anthropic_params :: "AnthropicProvider \<Rightarrow> ChatRequest \<Rightarrow> an_params" where
  "anthropic_params p request =
     \<lparr> anp_model = or_else (model request) (an_defaultModel p),
       anp_system = system_prompt request,
       anp_messages = AnthropicProvider_formatMessages (messages request),
       anp_temperature = temperature request,
       anp_max_tokens =
         (case maxTokens request of None \<Rightarrow> 4096 | Some k \<Rightarrow> if k = 0 then 4096 else k) \<rparr>"

fun block_text :: "an_block \<Rightarrow> string" where
  "block_text (text_block t) = t"
| "block_text other_block = []"

definition anthropic_usage :: "an_message \<Rightarrow> TokenUsage" where
  "anthropic_usage message =
     \<lparr> promptTokens = am_input_tokens message,
       completionTokens = am_output_tokens message,
       totalTokens = am_input_tokens message + am_output_tokens message \<rparr>"

definition AnthropicProvider_chat ::
  "AnthropicProvider \<Rightarrow> backend \<Rightarrow> ChatRequestInput \<Rightarrow> (js_error + ChatResponse) \<times> effect list" where
  "AnthropicProvider_chat p b requestInput =
     (case an_client p of
        None \<Rightarrow> (Inl anthropic_not_configured, [AdapterCall ''Anthropic'' ''chat''])
      | Some _ \<Rightarrow>
          (case ChatSchema_parse requestInput of
             Inl z \<Rightarrow> (Inl z, [AdapterCall ''Anthropic'' ''chat''])
           | Inr request \<Rightarrow>
               (case anthropic_create b (anthropic_params p request) of
                  Inl err \<Rightarrow> Inl (anthropic_error err)
                | Inr response \<Rightarrow>
                    Inr \<lparr> resp_content = concat (map block_text (am_content response)),
                          resp_model = am_model response,
                          resp_usage = anthropic_usage response,
                          resp_finishReason = mapStopReason (am_stop_reason response) \<rparr>,
                [AdapterCall ''Anthropic'' ''chat'', NetworkCall ''Anthropic''])))"

text \<open>
  The \<open>for await\<close> loop of \<open>chatStream\<close> over the SSE events, with the local
  variable \<open>usage\<close> as an argument. It returns the chunks enqueued and, when
  \<open>finalMessage()\<close> rejected, the error that ended the loop.
\<close>

fun anthropic_events ::
  "(backend_error + an_message) \<Rightarrow> TokenUsage option \<Rightarrow> an_event list
     \<Rightarrow> StreamChunk list \<times> backend_error option" where
  "anthropic_events fm usage [] = ([], None)"
| "anthropic_events fm usage (content_block_delta (text_delta t) # evs) =
     (let (cs, e) = anthropic_events fm usage evs
      in (\<lparr> chunk_content = t, chunk_done = False, chunk_model = None,
            chunk_usage = None, chunk_finishReason = None \<rparr> # cs, e))"
| "anthropic_events fm usage (content_block_delta other_delta # evs) =
     anthropic_events fm usage evs"
| "anthropic_events fm usage (message_delta None # evs) =
     anthropic_events fm usage evs"
| "anthropic_events fm usage (message_delta (Some n) # evs) =
     anthropic_events fm
       (Some \<lparr> promptTokens = 0, completionTokens = n, totalTokens = n \<rparr>) evs"
| "anthropic_events fm usage (message_stop # evs) =
     (case fm of
        Inl err \<Rightarrow> ([], Some err)
      | Inr message \<Rightarrow>
          (let usage' = anthropic_usage message;
               (cs, e) = anthropic_events fm (Some usage') evs
           in (\<lparr> chunk_content = [], chunk_done = True,
                 chunk_model = Some (am_model message),
                 chunk_usage = Some usage',
                 chunk_finishReason = mapStopReason (am_stop_reason message) \<rparr> # cs, e)))"
| "anthropic_events fm usage (other_event # evs) =
     anthropic_events fm usage evs"

text \<open>The \<open>start\<close> callback of the stream \<open>chatStream\<close> returns.\<close>

definition anthropic_start :: "backend_error + an_stream \<Rightarrow> chunk_stream" where
  "anthropic_start created =
     (case created of
        Inl err \<Rightarrow> \<lparr> chunks = [], stream_error = Some (anthropic_error err) \<rparr>
      | Inr st \<Rightarrow>
          (case anthropic_events (an_finalMessage st) None (an_events st) of
             (cs, Some err) \<Rightarrow> \<lparr> chunks = cs, stream_error = Some (anthropic_error err) \<rparr>
           | (cs, None) \<Rightarrow>
               \<lparr> chunks = cs, stream_error = map_option anthropic_error (an_failure st) \<rparr>))"

definition AnthropicProvider_chatStream ::
  "AnthropicProvider \<Rightarrow> backend \<Rightarrow> ChatRequestInput \<Rightarrow> (js_error + chunk_stream) \<times> effect list" where
  "AnthropicProvider_chatStream p b requestInput =
     (case an_client p of
        None \<Rightarrow> (Inl anthropic_not_configured, [AdapterCall ''Anthropic'' ''chatStream''])
      | Some _ \<Rightarrow>
          (case ChatSchema_parse requestInput of
             Inl z \<Rightarrow> (Inl z, [AdapterCall ''Anthropic'' ''chatStream''])
           | Inr request \<Rightarrow>
               (Inr (anthropic_start (anthropic_stream b (anthropic_params p request))),
                [AdapterCall ''Anthropic'' ''chatStream'', NetworkCall ''Anthropic''])))"

section \<open>Provider selection (module @/lib/llm)\<close>

datatype LLMProvider = OpenAI OpenAIProvider | Anthropic AnthropicProvider

text \<open>
  \<open>toLowerCase\<close> on the ASCII letters; no other character lowers to a letter of
  \<open>openai\<close> or \<open>anthropic\<close>.
\<close>

definition lower_char :: "char \<Rightarrow> char" where
  "lower_char c =
     (let n = (of_char c :: nat) in if 65 \<le> n \<and> n \<le> 90 then char_of (n + 32) else c)"

definition toLowerCase :: "string \<Rightarrow> string" where
  "toLowerCase s = map lower_char s"

fun LLMProvider_getName :: "LLMProvider \<Rightarrow> string" where
  "LLMProvider_getName (OpenAI p) = OpenAIProvider_getName p"
| "LLMProvider_getName (Anthropic p) = AnthropicProvider_getName p"

fun LLMProvider_isConfigured :: "LLMProvider \<Rightarrow> bool" where
  "LLMProvider_isConfigured (OpenAI p) = OpenAIProvider_isConfigured p"
| "LLMProvider_isConfigured (Anthropic p) = AnthropicProvider_isConfigured p"

fun LLMProvider_chat ::
  "LLMProvider \<Rightarrow> backend \<Rightarrow> ChatRequestInput \<Rightarrow> (js_error + ChatResponse) \<times> effect list" where
  "LLMProvider_chat (OpenAI p) b r = OpenAIProvider_chat p b r"
| "LLMProvider_chat (Anthropic p) b r = AnthropicProvider_chat p b r"

fun LLMProvider_chatStream ::
  "LLMProvider \<Rightarrow> backend \<Rightarrow> ChatRequestInput \<Rightarrow> (js_error + chunk_stream) \<times> effect list" where
  "LLMProvider_chatStream (OpenAI p) b r = OpenAIProvider_chatStream p b r"
| "LLMProvider_chatStream (Anthropic p) b r = AnthropicProvider_chatStream p b r"

definition getProvider :: "env \<Rightarrow> js_error + LLMProvider" where
  "getProvider e =
     (let providerType = toLowerCase (or_else (LLM_PROVIDER e) ''openai'')
      in case (if providerType = ''openai'' then Inr (OpenAI (OpenAIProvider_new e))
               else if providerType = ''anthropic'' then Inr (Anthropic (AnthropicProvider_new e))
               else Inl (LLMProviderError
                          (''Invalid LLM_PROVIDER: '' @ providerType @
                           ''. Must be one of: openai, anthropic''))) of
           Inl err \<Rightarrow> Inl err
         | Inr provider \<Rightarrow>
             if \<not> LLMProvider_isConfigured provider
             then Inl (LLMProviderError
                        (LLMProvider_getName provider @
                         '' provider is not configured. Please set the required API key environment variable.''))
             else Inr provider)"

definition chat :: "env \<Rightarrow> backend \<Rightarrow> ChatRequest \<Rightarrow> (js_error + ChatResponse) \<times> effect list" where
  "chat e b request =
     (case ChatSchema_parse (as_input request) of
        Inl z \<Rightarrow> (Inl z, [])
      | Inr validated \<Rightarrow>
          (case getProvider e of
             Inl err \<Rightarrow> (Inl err, [])
           | Inr provider \<Rightarrow> LLMProvider_chat provider b (as_input validated)))"

definition chatStream :: "env \<Rightarrow> backend \<Rightarrow> ChatRequest \<Rightarrow> (js_error + chunk_stream) \<times> effect list" where
  "chatStream e b request =
     (case ChatSchema_parse ((as_input request)\<lparr> stream_in := Some True \<rparr>) of
        Inl z \<Rightarrow> (Inl z, [])
      | Inr validated \<Rightarrow>
          (case getProvider e of
             Inl err \<Rightarrow> (Inl err, [])
           | Inr provider \<Rightarrow> LLMProvider_chatStream provider b (as_input validated)))"

definition getCurrentProviderName :: "env \<Rightarrow> js_error + string" where
  "getCurrentProviderName e =
     (case getProvider e of Inl err \<Rightarrow> Inl err | Inr provider \<Rightarrow> Inr (LLMProvider_getName provider))"

section \<open>Storage\<close>

text \<open>
  The two tables of the schema (docs/chat-repository.md). Chats are keyed by their
  id; message rows are kept in insertion order, without their generated ids, which no
  function here reads. Times are readings of a clock, as \<open>nat\<close>; a run is given one
  reading \<open>now\<close> that stands for the time of all its writes.
\<close>

record Chat =
  chat_id :: string
  chat_userId :: "string option"
  chat_title :: "string option"
  chat_createdAt :: nat
  chat_updatedAt :: nat

record MessageRow =
  msg_chatId :: string
  msg_role :: string
  msg_content :: string
  msg_tokens :: "int option"
  msg_createdAt :: nat

record store =
  chats :: "string \<rightharpoonup> Chat"
  message_rows :: "MessageRow list"

text \<open>
  The calls the code makes on the storage client. A run is given a predicate that
  says at which of its calls the storage layer throws.
\<close>

datatype db_call =
    FindUniqueChat
  | CreateChat
  | CreateUserMessage
  | CreateAssistantMessage
  | UpdateChat
  | Commit

text \<open>
  Modelled from the spec: the storage client (module \<open>./prisma\<close>, not among the
  sources), which the specification assumes "to expose create/read/update operations
  with transactional guarantees". \<open>chat_findUnique\<close> reads a chat by id.
\<close>

definition chat_findUnique :: "bool \<Rightarrow> store \<Rightarrow> string \<Rightarrow> js_error + Chat option" where
  "chat_findUnique faulty s cid =
     (if faulty then Inl (PrismaError StorageUnavailable) else Inr (chats s cid))"

text \<open>
  Modelled from the spec: the storage client's create of a chat. The id is the one
  given, or else the generated one; an id already in use is rejected; both timestamps
  are set to the current time.
\<close>

definition chat_create ::
  "bool \<Rightarrow> nat \<Rightarrow> string \<Rightarrow> store \<Rightarrow> string option \<Rightarrow> string option \<Rightarrow> string option
     \<Rightarrow> js_error + Chat \<times> store" where
  "chat_create faulty now generated s cid userId title =
     (let new_id = (case cid of None \<Rightarrow> generated | Some i \<Rightarrow> i)
      in if faulty then Inl (PrismaError StorageUnavailable)
         else if chats s new_id \<noteq> None then Inl (PrismaError UniqueConstraintViolation)
         else (let c = \<lparr> chat_id = new_id, chat_userId = userId, chat_title = title,
                          chat_createdAt = now, chat_updatedAt = now \<rparr>
               in Inr (c, s\<lparr> chats := (chats s)(new_id \<mapsto> c) \<rparr>)))"

text \<open>
  Modelled from the spec: the storage client's create of a message, which "fails if
  conversation absent".
\<close>

definition message_create ::
  "bool \<Rightarrow> nat \<Rightarrow> store \<Rightarrow> string \<Rightarrow> string \<Rightarrow> string \<Rightarrow> int option
     \<Rightarrow> js_error + MessageRow \<times> store" where
  "message_create faulty now s cid r txt tokens =
     (if faulty then Inl (PrismaError StorageUnavailable)
      else if chats s cid = None then Inl (PrismaError ForeignKeyViolation)
      else (let row = \<lparr> msg_chatId = cid, msg_role = r, msg_content = txt,
                         msg_tokens = tokens, msg_createdAt = now \<rparr>
            in Inr (row, s\<lparr> message_rows := message_rows s @ [row] \<rparr>)))"

text \<open>
  Modelled from the spec: the storage client's update of a chat's \<open>updatedAt\<close>.
\<close>

definition chat_update :: "bool \<Rightarrow> store \<Rightarrow> string \<Rightarrow> nat \<Rightarrow> js_error + Chat \<times> store" where
  "chat_update faulty s cid t =
     (if faulty then Inl (PrismaError StorageUnavailable)
      else case chats s cid of
             None \<Rightarrow> Inl (PrismaError RecordNotFound)
           | Some c \<Rightarrow>
               Inr (c\<lparr> chat_updatedAt := t \<rparr>,
                    s\<lparr> chats := (chats s)(cid \<mapsto> c\<lparr> chat_updatedAt := t \<rparr>) \<rparr>))"

text \<open>
  A call on the storage client inside a transaction: the call is recorded, and the
  predicate of the run says whether the storage layer throws at it.
\<close>

definition storage_call :: "(db_call \<Rightarrow> bool) \<Rightarrow> db_call \<Rightarrow> (bool \<Rightarrow> 'r) \<Rightarrow> 'r \<times> db_call list" where
  "storage_call fault c operation = (operation (fault c), [c])"

text \<open>
  Modelled from the spec: \<open>$transaction\<close> of the storage client ("runTransaction",
  whose effects "commit atomically or not at all"). The callback runs on the store and
  returns the calls it made; when it throws, or the commit does, the store is left as
  it was. The calls made are returned in either case, the commit last.
\<close>

definition transaction ::
  "(db_call \<Rightarrow> bool) \<Rightarrow> (store \<Rightarrow> (js_error + 'a \<times> store) \<times> db_call list) \<Rightarrow> store
     \<Rightarrow> (js_error + 'a) \<times> store \<times> db_call list" where
  "transaction fault callback s =
     (case callback s of
        (Inl err, made) \<Rightarrow> (Inl err, s, made)
      | (Inr (a, s'), made) \<Rightarrow>
          (case storage_call fault Commit (\<lambda>faulty. faulty) of
             (faulty, committing) \<Rightarrow>
               if faulty then (Inl (PrismaError StorageUnavailable), s, made @ committing)
               else (Inr a, s', made @ committing)))"

section \<open>Chat repository (src/lib/db/chatRepo.ts)\<close>

text \<open>
  The messages included with a chat, \<open>orderBy: { createdAt: "asc" }\<close>.
\<close>

definition chat_messages :: "store \<Rightarrow> string \<Rightarrow> MessageRow list" where
  "chat_messages s cid = sort_key msg_createdAt (filter (\<lambda>m. msg_chatId m = cid) (message_rows s))"

text \<open>
  \<open>getOrCreateChat(chatId?, userId?, title?)\<close>. \<open>generated\<close> is the id the storage
  layer generates for a chat created without one.
\<close>

definition getOrCreateChat ::
  "(db_call \<Rightarrow> bool) \<Rightarrow> nat \<Rightarrow> string \<Rightarrow> store \<Rightarrow> string option \<Rightarrow> string option \<Rightarrow> string option
     \<Rightarrow> (js_error + Chat \<times> MessageRow list) \<times> store" where
  "getOrCreateChat fault now generated s chatId userId title =
     (if truthy chatId
      then (case chat_findUnique (fault FindUniqueChat) s (or_else chatId []) of
              Inl err \<Rightarrow> (Inl err, s)
            | Inr None \<Rightarrow> (Inl (ChatNotFoundError (or_else chatId [])), s)
            | Inr (Some existingChat) \<Rightarrow>
                (Inr (existingChat, chat_messages s (or_else chatId [])), s))
      else (case chat_create (fault CreateChat) now generated s None userId title of
              Inl err \<Rightarrow> (Inl err, s)
            | Inr (newChat, s') \<Rightarrow>
                (Inr (newChat, filter (\<lambda>m. msg_chatId m = chat_id newChat) (message_rows s')), s')))"

section \<open>The chat route (POST /api/chat)\<close>

subsection \<open>collectAndSaveResponse\<close>

record collected =
  assistantContent :: string
  collectedTokens :: int
  collectedFinishReason :: "string option"

text \<open>The \<open>while (true)\<close> loop over the reader, until the stream is done.\<close>

fun collect_chunks :: "collected \<Rightarrow> StreamChunk list \<Rightarrow> collected" where
  "collect_chunks acc [] = acc"
| "collect_chunks acc (v # rest) =
     collect_chunks
       (if chunk_done v
        then acc\<lparr> collectedTokens := or_zero (map_option completionTokens (chunk_usage v)),
                  collectedFinishReason := or_null (chunk_finishReason v) \<rparr>
        else acc\<lparr> assistantContent := assistantContent acc @ chunk_content v \<rparr>)
       rest"

text \<open>
  The first step of the transaction callback: look the chat up and create it when it
  is missing, titled with the first 100 characters of the user's message. The result
  comes with the calls made on the storage client, in order.
\<close>

definition ensure_chat_traced ::
  "(db_call \<Rightarrow> bool) \<Rightarrow> nat \<Rightarrow> string \<Rightarrow> string option \<Rightarrow> string \<Rightarrow> store
     \<Rightarrow> (js_error + Chat \<times> store) \<times> db_call list" where
  "ensure_chat_traced fault now chatId userId userMessageContent s =
     (case storage_call fault FindUniqueChat (\<lambda>faulty. chat_findUnique faulty s chatId) of
        (Inl err, finding) \<Rightarrow> (Inl err, finding)
      | (Inr (Some c), finding) \<Rightarrow> (Inr (c, s), finding)
      | (Inr None, finding) \<Rightarrow>
          (case storage_call fault CreateChat
                  (\<lambda>faulty. chat_create faulty now [] s (Some chatId) userId
                               (Some (take 100 userMessageContent))) of
             (created, creating) \<Rightarrow> (created, finding @ creating)))"

text \<open>The same step, without the record of its calls.\<close>

definition ensure_chat ::
  "(db_call \<Rightarrow> bool) \<Rightarrow> nat \<Rightarrow> string \<Rightarrow> string option \<Rightarrow> string \<Rightarrow> store
     \<Rightarrow> js_error + Chat \<times> store" where
  "ensure_chat fault now chatId userId userMessageContent s =
     fst (ensure_chat_traced fault now chatId userId userMessageContent s)"

text \<open>
  The callback given to \<open>$transaction\<close>, with the calls it makes on the storage
  client, in order, up to the one that throws.
\<close>

definition save_callback ::
  "(db_call \<Rightarrow> bool) \<Rightarrow> nat \<Rightarrow> string \<Rightarrow> string option \<Rightarrow> string \<Rightarrow> string \<Rightarrow> int \<Rightarrow> store
     \<Rightarrow> (js_error + unit \<times> store) \<times> db_call list" where
  "save_callback fault now chatId userId userMessageContent assistantText tokens s =
     (case ensure_chat_traced fault now chatId userId userMessageContent s of
        (Inl err, t1) \<Rightarrow> (Inl err, t1)
      | (Inr (_, s1), t1) \<Rightarrow>
          (case storage_call fault CreateUserMessage
                  (\<lambda>faulty. message_create faulty now s1 chatId ''user''
                               userMessageContent None) of
             (Inl err, t2) \<Rightarrow> (Inl err, t1 @ t2)
           | (Inr (_, s2), t2) \<Rightarrow>
               (case storage_call fault CreateAssistantMessage
                       (\<lambda>faulty. message_create faulty now s2 chatId ''assistant''
                                    assistantText (Some tokens)) of
                  (Inl err, t3) \<Rightarrow> (Inl err, t1 @ t2 @ t3)
                | (Inr (_, s3), t3) \<Rightarrow>
                    (case storage_call fault UpdateChat
                            (\<lambda>faulty. chat_update faulty s3 chatId now) of
                       (Inl err, t4) \<Rightarrow> (Inl err, t1 @ t2 @ t3 @ t4)
                     | (Inr (_, s4), t4) \<Rightarrow> (Inr ((), s4), t1 @ t2 @ t3 @ t4)))))"

text \<open>
  \<open>collectAndSaveResponse\<close>: its outcome, the store afterwards, what it wrote to the
  console (the texts of the console lines are shortened to their fixed part), and the
  calls it made on the storage client, in order.
\<close>

definition collectAndSaveResponse ::
  "(db_call \<Rightarrow> bool) \<Rightarrow> nat \<Rightarrow> chunk_stream \<Rightarrow> string \<Rightarrow> string option \<Rightarrow> string \<Rightarrow> store
     \<Rightarrow> (js_error + unit) \<times> store \<times> effect list \<times> db_call list" where
  "collectAndSaveResponse fault now strm chatId userId userMessageContent s =
     (case stream_error strm of
        Some err \<Rightarrow> (Inl err, s, [ConsoleError ''Error collecting and saving response:''], [])
      | None \<Rightarrow>
          (let acc = collect_chunks
                       \<lparr> assistantContent = [], collectedTokens = 0,
                         collectedFinishReason = None \<rparr> (chunks strm)
           in case transaction fault
                     (save_callback fault now chatId userId userMessageContent
                        (assistantContent acc) (collectedTokens acc)) s of
                (Inl err, s', made) \<Rightarrow>
                  (Inl err, s', [ConsoleError ''Error collecting and saving response:''], made)
              | (Inr _, s', made) \<Rightarrow>
                  (Inr (), s', [ConsoleLog (''Chat '' @ chatId @ '': Saved messages'')], made)))"

subsection \<open>POST\<close>

record ChatRequestBody =
  body_chatId :: string
  body_userId :: "string option"
  body_system :: "string option"
  body_messages :: "MessageInput list"
  body_temperature :: "real option"
  body_maxTokens :: "real option"
  body_model :: "string option"

datatype json_body =
    ErrorBody string
  | ValidationErrorBody "zod_issue list"
  | ProviderConfigErrorBody string
  | APIErrorBody string string "int option"
  | InternalErrorBody string

datatype response_body = Json json_body | Stream chunk_stream

record Response =
  status :: int
  body :: response_body
  x_provider :: "string option"

record post_result =
  post_response :: Response
  post_effects :: "effect list"
  post_store :: store

definition error_message :: "js_error \<Rightarrow> string" where
  "error_message err =
     (case err of
        ZodError _ \<Rightarrow> ''Validation error''
      | LLMProviderError msg \<Rightarrow> msg
      | LLMAPIError msg _ _ \<Rightarrow> msg
      | ChatNotFoundError cid \<Rightarrow> ''Chat with id '' @ cid @ '' not found''
      | PrismaError _ \<Rightarrow> ''Storage error''
      | OtherError msg \<Rightarrow> msg)"

text \<open>The \<open>catch\<close> block of \<open>POST\<close>.\<close>

definition error_response :: "js_error \<Rightarrow> Response \<times> effect list" where
  "error_response err =
     (case err of
        ZodError issues \<Rightarrow>
          (\<lparr> status = 400, body = Json (ValidationErrorBody issues), x_provider = None \<rparr>, [])
      | LLMProviderError msg \<Rightarrow>
          (\<lparr> status = 503, body = Json (ProviderConfigErrorBody msg), x_provider = None \<rparr>, [])
      | LLMAPIError msg provider statusCode \<Rightarrow>
          (\<lparr> status = (case statusCode of None \<Rightarrow> 500 | Some c \<Rightarrow> if c = 0 then 500 else c),
             body = Json (APIErrorBody msg provider statusCode), x_provider = None \<rparr>, [])
      | _ \<Rightarrow>
          (\<lparr> status = 500, body = Json (InternalErrorBody (error_message err)), x_provider = None \<rparr>,
           [ConsoleError ''Unexpected error in chat API:'']))"

text \<open>
  \<open>ReadableStream.tee()\<close> of the platform: two branches, each delivering what the
  source stream delivers.
\<close>

definition tee :: "chunk_stream \<Rightarrow> chunk_stream \<times> chunk_stream" where
  "tee s = (s, s)"

definition last_message :: "Message list \<Rightarrow> Message option" where
  "last_message ms = (case ms of [] \<Rightarrow> None | _ \<Rightarrow> Some (last ms))"

text \<open>The object \<open>POST\<close> hands to \<open>ChatSchema.parse\<close>, with \<open>stream: true\<close>.\<close>

definition request_input :: "ChatRequestBody \<Rightarrow> ChatRequestInput" where
  "request_input rq =
     \<lparr> system_in = body_system rq, messages_in = body_messages rq,
       stream_in = Some True, temperature_in = body_temperature rq,
       maxTokens_in = body_maxTokens rq, model_in = body_model rq \<rparr>"

text \<open>
  \<open>POST\<close>, on a request whose JSON body has been read. The collector is started
  before the response is returned and its rejection is caught and logged; the run is
  given here with the collector's work done.
\<close>

definition POST ::
  "env \<Rightarrow> backend \<Rightarrow> (db_call \<Rightarrow> bool) \<Rightarrow> nat \<Rightarrow> ChatRequestBody \<Rightarrow> store \<Rightarrow> post_result" where
  "POST e b fault now rq s =
     (case ChatSchema_parse (request_input rq) of
        Inl err \<Rightarrow>
          \<lparr> post_response = fst (error_response err), post_effects = snd (error_response err),
            post_store = s \<rparr>
      | Inr validated \<Rightarrow>
          (case last_message (messages validated) of
             None \<Rightarrow>
               \<lparr> post_response = \<lparr> status = 400, body = Json (ErrorBody ''Last message must be from user''),
                                   x_provider = None \<rparr>,
                 post_effects = [], post_store = s \<rparr>
           | Some userMessage \<Rightarrow>
               if role userMessage \<noteq> user
               then \<lparr> post_response = \<lparr> status = 400, body = Json (ErrorBody ''Last message must be from user''),
                                        x_provider = None \<rparr>,
                      post_effects = [], post_store = s \<rparr>
               else (case getCurrentProviderName e of
                       Inl err \<Rightarrow>
                         \<lparr> post_response = fst (error_response err),
                           post_effects = snd (error_response err), post_store = s \<rparr>
                     | Inr provider \<Rightarrow>
                         (case chatStream e b validated of
                            (Inl err, fx) \<Rightarrow>
                              \<lparr> post_response = fst (error_response err),
                                post_effects = fx @ snd (error_response err), post_store = s \<rparr>
                          | (Inr llmStream, fx) \<Rightarrow>
                              (let (clientStream, collectorStream) = tee llmStream;
                                   (saved, s', logged, made) =
                                     collectAndSaveResponse fault now collectorStream (body_chatId rq)
                                       (body_userId rq) (content userMessage) s
                               in \<lparr> post_response = \<lparr> status = 200, body = Stream clientStream,
                                                       x_provider = Some provider \<rparr>,
                                    post_effects =
                                      fx @ logged @
                                      (case saved of
                                         Inl _ \<Rightarrow> [ConsoleError ''Failed to save messages to database:'']
                                       | Inr _ \<Rightarrow> []),
                                    post_store = s' \<rparr>)))))"

section \<open>Notions used to state the properties\<close>

text \<open>The chunks a call of \<open>chatStream\<close> delivers (none when the call itself threw).\<close>

definition stream_chunks :: "(js_error + chunk_stream) \<times> effect list \<Rightarrow> StreamChunk list" where
  "stream_chunks r = (case fst r of Inl _ \<Rightarrow> [] | Inr st \<Rightarrow> chunks st)"

text \<open>A chunk carries usage, and the usage adds up.\<close>

definition usage_complete :: "StreamChunk \<Rightarrow> bool" where
  "usage_complete c =
     (case chunk_usage c of
        None \<Rightarrow> False
      | Some u \<Rightarrow> totalTokens u = promptTokens u + completionTokens u)"

text \<open>The last chunk marked done among the chunks read, if there is one.\<close>

definition final_chunk :: "StreamChunk list \<Rightarrow> StreamChunk option" where
  "final_chunk cs = (case filter chunk_done cs of [] \<Rightarrow> None | d # ds \<Rightarrow> Some (last (d # ds)))"

text \<open>The text of the chunks not marked done, in the order read.\<close>

definition streamed_text :: "StreamChunk list \<Rightarrow> string" where
  "streamed_text cs = concat (map chunk_content (filter (\<lambda>c. \<not> chunk_done c) cs))"

text \<open>An outcome is a failure of the provider-configuration kind.\<close>

definition is_ProviderConfigError :: "js_error + 'a \<Rightarrow> bool" where
  "is_ProviderConfigError r = (case r of Inl (LLMProviderError _) \<Rightarrow> True | _ \<Rightarrow> False)"

definition is_LLMAPIError :: "js_error + 'a \<Rightarrow> bool" where
  "is_LLMAPIError r = (case r of Inl (LLMAPIError _ _ _) \<Rightarrow> True | _ \<Rightarrow> False)"

definition no_network_call :: "effect list \<Rightarrow> bool" where
  "no_network_call fx = (\<forall>x \<in> set fx. case x of NetworkCall _ \<Rightarrow> False | _ \<Rightarrow> True)"

definition no_adapter_call :: "effect list \<Rightarrow> bool" where
  "no_adapter_call fx = (\<forall>x \<in> set fx. case x of AdapterCall _ _ \<Rightarrow> False | _ \<Rightarrow> True)"

subsection \<open>The four effects of the persistence commit, one by one\<close>

definition effect_get_or_create :: "nat \<Rightarrow> string \<Rightarrow> string option \<Rightarrow> string \<Rightarrow> store \<Rightarrow> store" where
  "effect_get_or_create now chatId userId userMessageContent s =
     (case chats s chatId of
        Some _ \<Rightarrow> s
      | None \<Rightarrow>
          s\<lparr> chats := (chats s)(chatId \<mapsto>
                \<lparr> chat_id = chatId, chat_userId = userId,
                  chat_title = Some (take 100 userMessageContent),
                  chat_createdAt = now, chat_updatedAt = now \<rparr>) \<rparr>)"

definition effect_append :: "nat \<Rightarrow> string \<Rightarrow> string \<Rightarrow> string \<Rightarrow> int option \<Rightarrow> store \<Rightarrow> store" where
  "effect_append now chatId r txt tokens s =
     s\<lparr> message_rows := message_rows s @
          [\<lparr> msg_chatId = chatId, msg_role = r, msg_content = txt,
             msg_tokens = tokens, msg_createdAt = now \<rparr>] \<rparr>"

definition effect_advance :: "nat \<Rightarrow> string \<Rightarrow> store \<Rightarrow> store" where
  "effect_advance now chatId s =
     (case chats s chatId of
        None \<Rightarrow> s
      | Some c \<Rightarrow> s\<lparr> chats := (chats s)(chatId \<mapsto> c\<lparr> chat_updatedAt := now \<rparr>) \<rparr>)"

text \<open>
  The storage layer throws at one of the calls the commit makes on store \<open>s\<close>
  (the create of the chat is only called when the chat is missing).
\<close>

definition storage_throws :: "(db_call \<Rightarrow> bool) \<Rightarrow> store \<Rightarrow> string \<Rightarrow> bool" where
  "storage_throws fault s chatId \<longleftrightarrow>
     fault FindUniqueChat \<or> (chats s chatId = None \<and> fault CreateChat) \<or>
     fault CreateUserMessage \<or> fault CreateAssistantMessage \<or> fault UpdateChat \<or>
     fault Commit"

text \<open>
  The calls a commit makes on the storage client when none throws, in the order of the
  source: the lookup of the chat, its creation when it is missing, the two message
  rows, the update of the chat, and the commit.
\<close>

definition commit_calls :: "store \<Rightarrow> string \<Rightarrow> db_call list" where
  "commit_calls s chatId =
     [FindUniqueChat] @ (if chats s chatId = None then [CreateChat] else []) @
     [CreateUserMessage, CreateAssistantMessage, UpdateChat, Commit]"

text \<open>A list of calls cut after the first one at which the storage layer throws.\<close>

definition calls_until_fault :: "(db_call \<Rightarrow> bool) \<Rightarrow> db_call list \<Rightarrow> db_call list" where
  "calls_until_fault fault cs =
     takeWhile (\<lambda>c. \<not> fault c) cs @ take 1 (dropWhile (\<lambda>c. \<not> fault c) cs)"

subsection \<open>Concrete inputs\<close>

definition no_faults :: "db_call \<Rightarrow> bool" where
  "no_faults c = False"

definition fault_at :: "db_call \<Rightarrow> db_call \<Rightarrow> bool" where
  "fault_at c c' \<longleftrightarrow> c' = c"

definition empty_store :: store where
  "empty_store = \<lparr> chats = Map.empty, message_rows = [] \<rparr>"

definition hello_chunks :: "StreamChunk list" where
  "hello_chunks =
     [\<lparr> chunk_content = ''He'', chunk_done = False, chunk_model = None,
        chunk_usage = None, chunk_finishReason = None \<rparr>,
      \<lparr> chunk_content = ''llo'', chunk_done = False, chunk_model = None,
        chunk_usage = None, chunk_finishReason = None \<rparr>,
      \<lparr> chunk_content = [], chunk_done = True, chunk_model = Some ''m'',
        chunk_usage = Some \<lparr> promptTokens = 4, completionTokens = 2, totalTokens = 6 \<rparr>,
        chunk_finishReason = Some ''stop'' \<rparr>]"

definition hello_stream :: chunk_stream where
  "hello_stream = \<lparr> chunks = hello_chunks, stream_error = None \<rparr>"

definition hi_request :: ChatRequestInput where
  "hi_request =
     \<lparr> system_in = None, messages_in = [\<lparr> role_in = ''user'', content_in = ''hi'' \<rparr>],
       stream_in = None, temperature_in = None, maxTokens_in = None, model_in = None \<rparr>"

text \<open>
  An OpenAI stream as the backend sends it when usage is asked for: the text, then the
  chunk with the finish reason, then a last chunk with no choices that carries the usage.
\<close>

definition openai_usage_last :: "oa_chunk backend_stream" where
  "openai_usage_last =
     \<lparr> items =
         [\<lparr> oc_choices = [\<lparr> choice_delta = Some \<lparr> delta_content = Some ''Hi'' \<rparr>,
                            choice_finish_reason = None \<rparr>],
            oc_model = ''gpt-4o-mini'', oc_usage = None \<rparr>,
          \<lparr> oc_choices = [\<lparr> choice_delta = Some \<lparr> delta_content = None \<rparr>,
                            choice_finish_reason = Some ''stop'' \<rparr>],
            oc_model = ''gpt-4o-mini'', oc_usage = None \<rparr>,
          \<lparr> oc_choices = [], oc_model = ''gpt-4o-mini'',
            oc_usage = Some \<lparr> prompt_tokens = 3, completion_tokens = 1, total_tokens = 4 \<rparr> \<rparr>],
       failure = None \<rparr>"

definition anthropic_hello :: an_stream where
  "anthropic_hello =
     \<lparr> an_events =
         [content_block_delta (text_delta ''Hello''), message_delta (Some 3), message_stop],
       an_failure = None,
       an_finalMessage =
         Inr \<lparr> am_content = [text_block ''Hello''], am_model = ''claude-3-5-sonnet-20241022'',
               am_input_tokens = 10, am_output_tokens = 3, am_stop_reason = Some ''end_turn'' \<rparr> \<rparr>"

text \<open>A backend that answers every streaming request with the streams above.\<close>

definition hello_backend :: backend where
  "hello_backend =
     \<lparr> openai_create = (\<lambda>_. Inl (Thrown ''unused'')),
       openai_create_stream = (\<lambda>_. Inr openai_usage_last),
       anthropic_create = (\<lambda>_. Inl (Thrown ''unused'')),
       anthropic_stream = (\<lambda>_. Inr anthropic_hello) \<rparr>"

definition openai_env :: env where
  "openai_env =
     \<lparr> LLM_PROVIDER = None, OPENAI_API_KEY = Some ''sk-test-key'', OPENAI_MODEL = None,
       ANTHROPIC_API_KEY = None, ANTHROPIC_MODEL = None \<rparr>"

definition no_key_env :: env where
  "no_key_env =
     \<lparr> LLM_PROVIDER = None, OPENAI_API_KEY = None, OPENAI_MODEL = None,
       ANTHROPIC_API_KEY = None, ANTHROPIC_MODEL = None \<rparr>"

definition hi_body :: ChatRequestBody where
  "hi_body =
     \<lparr> body_chatId = ''c1'', body_userId = None, body_system = None,
       body_messages = [\<lparr> role_in = ''user'', content_in = ''hi'' \<rparr>],
       body_temperature = None, body_maxTokens = None, body_model = None \<rparr>"

definition assistant_last_body :: ChatRequestBody where
  "assistant_last_body =
     hi_body\<lparr> body_messages :=
       [\<lparr> role_in = ''user'', content_in = ''hi'' \<rparr>,
        \<lparr> role_in = ''assistant'', content_in = ''hello'' \<rparr>] \<rparr>"

section \<open>Request validation\<close>

lemma message_issues_Nil_iff:
  "message_issues i ms = [] \<longleftrightarrow> (\<forall>m \<in> set ms. MessageRoleSchema_parse (role_in m) \<noteq> None)"
  by (induction ms arbitrary: i) (auto split: option.splits)

lemma MessageRoleSchema_parse_Some_iff:
  "MessageRoleSchema_parse r \<noteq> None \<longleftrightarrow> r \<in> {''user'', ''assistant'', ''system''}"
  by (simp add: MessageRoleSchema_parse_def)

lemma messages_issues_Nil_iff:
  "messages_issues ms = [] \<longleftrightarrow>
     ms \<noteq> [] \<and> (\<forall>m \<in> set ms. role_in m \<in> {''user'', ''assistant'', ''system''})"
proof -
  have "length ms < 1 \<longleftrightarrow> ms = []" by (cases ms) simp_all
  then show ?thesis
    unfolding messages_issues_def
    using message_issues_Nil_iff [of 0 ms] MessageRoleSchema_parse_Some_iff
    by auto
qed

lemma temperature_issues_Nil_iff:
  "temperature_issues t = [] \<longleftrightarrow> (\<forall>x. t = Some x \<longrightarrow> 0 \<le> x \<and> x \<le> 2)"
  by (cases t) (auto simp: temperature_issues_def)

lemma maxTokens_issues_Nil_iff:
  "maxTokens_issues k = [] \<longleftrightarrow> (\<forall>x. k = Some x \<longrightarrow> 0 < x)"
  by (cases k) (auto simp: maxTokens_issues_def)

lemma ChatSchema_parse_Inr_iff:
  "(\<exists>r. ChatSchema_parse inp = Inr r) \<longleftrightarrow>
     messages_issues (messages_in inp) = [] \<and>
     temperature_issues (temperature_in inp) = [] \<and>
     maxTokens_issues (maxTokens_in inp) = []"
  by (auto simp: ChatSchema_parse_def Let_def)

lemma ChatSchema_parse_Inr_fields:
  assumes "ChatSchema_parse inp = Inr r"
  shows "r = \<lparr> system_prompt = system_in inp,
               messages = map MessageSchema_output (messages_in inp),
               stream = (case stream_in inp of None \<Rightarrow> False | Some b \<Rightarrow> b),
               temperature = (case temperature_in inp of None \<Rightarrow> 0.7 | Some t \<Rightarrow> t),
               maxTokens = maxTokens_in inp,
               model = model_in inp \<rparr>"
  using assms by (auto simp: ChatSchema_parse_def Let_def split: if_splits)

lemma ChatSchema_parse_Inl:
  assumes "ChatSchema_parse inp = Inl err"
  shows "\<exists>issues. issues \<noteq> [] \<and> err = ZodError issues"
  using assms by (auto simp: ChatSchema_parse_def Let_def split: if_splits)

lemma role_string_MessageSchema_output:
  assumes "role_in m \<in> {''user'', ''assistant'', ''system''}"
  shows "role_string (role (MessageSchema_output m)) = role_in m"
  using assms
  by (auto simp: MessageSchema_output_def MessageRoleSchema_parse_def role_string_def)

lemma content_MessageSchema_output: "content (MessageSchema_output m) = content_in m"
  by (simp add: MessageSchema_output_def)

text \<open>
  Claim C9. \<open>ChatSchema.parse\<close> succeeds exactly when \<open>messages\<close> is not empty, every
  role is one of user, assistant and system, \<open>temperature\<close> (when present) lies in
  [0, 2] and \<open>maxTokens\<close> (when present) is positive. On success the optional fields
  left out get their defaults (\<open>temperature\<close> 0.7, \<open>stream\<close> false) and all other
  fields are carried over; on any violation it fails with a ZodError that has at
  least one issue.
\<close>

theorem C9_request_validator:
  "((\<exists>r. ChatSchema_parse inp = Inr r) \<longleftrightarrow>
      messages_in inp \<noteq> [] \<and>
      (\<forall>m \<in> set (messages_in inp). role_in m \<in> {''user'', ''assistant'', ''system''}) \<and>
      (\<forall>t. temperature_in inp = Some t \<longrightarrow> 0 \<le> t \<and> t \<le> 2) \<and>
      (\<forall>k. maxTokens_in inp = Some k \<longrightarrow> 0 < k)) \<and>
   (\<forall>r. ChatSchema_parse inp = Inr r \<longrightarrow>
      temperature r = (case temperature_in inp of None \<Rightarrow> 0.7 | Some t \<Rightarrow> t) \<and>
      stream r = (case stream_in inp of None \<Rightarrow> False | Some b \<Rightarrow> b) \<and>
      system_prompt r = system_in inp \<and>
      maxTokens r = maxTokens_in inp \<and>
      model r = model_in inp \<and>
      map content (messages r) = map content_in (messages_in inp) \<and>
      map (\<lambda>m. role_string (role m)) (messages r) = map role_in (messages_in inp)) \<and>
   ((\<nexists>r. ChatSchema_parse inp = Inr r) \<longrightarrow>
      (\<exists>issues. issues \<noteq> [] \<and> ChatSchema_parse inp = Inl (ZodError issues)))"
proof (intro conjI allI impI)
  show "(\<exists>r. ChatSchema_parse inp = Inr r) \<longleftrightarrow>
      messages_in inp \<noteq> [] \<and>
      (\<forall>m \<in> set (messages_in inp). role_in m \<in> {''user'', ''assistant'', ''system''}) \<and>
      (\<forall>t. temperature_in inp = Some t \<longrightarrow> 0 \<le> t \<and> t \<le> 2) \<and>
      (\<forall>k. maxTokens_in inp = Some k \<longrightarrow> 0 < k)"
    unfolding ChatSchema_parse_Inr_iff messages_issues_Nil_iff temperature_issues_Nil_iff
      maxTokens_issues_Nil_iff
    by simp
next
  fix r assume ok: "ChatSchema_parse inp = Inr r"
  note r = ChatSchema_parse_Inr_fields [OF ok]
  show "temperature r = (case temperature_in inp of None \<Rightarrow> 0.7 | Some t \<Rightarrow> t)"
    by (subst r) simp
  show "stream r = (case stream_in inp of None \<Rightarrow> False | Some b \<Rightarrow> b)"
    by (subst r) simp
  show "system_prompt r = system_in inp" by (subst r) simp
  show "maxTokens r = maxTokens_in inp" by (subst r) simp
  show "model r = model_in inp" by (subst r) simp
  have ms: "messages r = map MessageSchema_output (messages_in inp)"
    by (subst r) simp
  show "map content (messages r) = map content_in (messages_in inp)"
    by (simp add: ms content_MessageSchema_output)
  from ok have "messages_issues (messages_in inp) = []"
    using ChatSchema_parse_Inr_iff [of inp] by blast
  then have "\<forall>m \<in> set (messages_in inp). role_in m \<in> {''user'', ''assistant'', ''system''}"
    unfolding messages_issues_Nil_iff by blast
  then show "map (\<lambda>m. role_string (role m)) (messages r) = map role_in (messages_in inp)"
    by (simp add: ms role_string_MessageSchema_output)
next
  assume "\<nexists>r. ChatSchema_parse inp = Inr r"
  then obtain err where "ChatSchema_parse inp = Inl err"
    by (cases "ChatSchema_parse inp") auto
  with ChatSchema_parse_Inl [of inp err]
  show "\<exists>issues. issues \<noteq> [] \<and> ChatSchema_parse inp = Inl (ZodError issues)"
    by auto
qed

theorem C9_request_validator_witness:
  "\<exists>r. ChatSchema_parse
          \<lparr> system_in = None,
            messages_in = [\<lparr> role_in = ''user'', content_in = ''hi'' \<rparr>],
            stream_in = None, temperature_in = None, maxTokens_in = Some 100,
            model_in = None \<rparr> = Inr r \<and>
        temperature r = 0.7 \<and> stream r = False \<and> maxTokens r = Some 100 \<and>
        map (\<lambda>m. role_string (role m)) (messages r) = [''user'']"
  using C9_request_validator
    [of "\<lparr> system_in = None,
            messages_in = [\<lparr> role_in = ''user'', content_in = ''hi'' \<rparr>],
            stream_in = None, temperature_in = None, maxTokens_in = Some 100,
            model_in = None \<rparr>"]
  by auto

section \<open>The persistence collector\<close>

lemma final_chunk_Cons:
  "final_chunk (v # rest) =
     (case final_chunk rest of
        Some d \<Rightarrow> Some d
      | None \<Rightarrow> if chunk_done v then Some v else None)"
  by (auto simp: final_chunk_def split: list.splits)

lemma collect_chunks_content:
  "assistantContent (collect_chunks acc cs) = assistantContent acc @ streamed_text cs"
  by (induction cs arbitrary: acc) (simp_all add: streamed_text_def)

text \<open>On integers \<open>n || 0\<close> is \<open>n\<close>, and \<open>0\<close> when \<open>n\<close> is absent.\<close>

lemma or_zero_eq: "or_zero n = (case n of None \<Rightarrow> 0 | Some x \<Rightarrow> x)"
  by (simp add: or_zero_def split: option.splits)

lemma collect_chunks_tokens:
  "collectedTokens (collect_chunks acc cs) =
     (case final_chunk cs of
        None \<Rightarrow> collectedTokens acc
      | Some v \<Rightarrow> (case chunk_usage v of None \<Rightarrow> 0 | Some u \<Rightarrow> completionTokens u))"
proof (induction cs arbitrary: acc)
  case Nil
  show ?case by (simp add: final_chunk_def)
next
  case (Cons v rest)
  show ?case
    by (simp add: Cons.IH final_chunk_Cons or_zero_eq split: option.splits)
qed

text \<open>The first step of the callback, as it reads in the source.\<close>

lemma ensure_chat_eq:
  "ensure_chat fault now chatId userId userMessageContent s =
     (case chat_findUnique (fault FindUniqueChat) s chatId of
        Inl err \<Rightarrow> Inl err
      | Inr (Some c) \<Rightarrow> Inr (c, s)
      | Inr None \<Rightarrow>
          chat_create (fault CreateChat) now [] s (Some chatId) userId
            (Some (take 100 userMessageContent)))"
  by (simp add: ensure_chat_def ensure_chat_traced_def storage_call_def
        split: sum.splits option.splits)

lemma ensure_chat_traced_eq:
  "ensure_chat_traced fault now chatId userId umc s =
     (if fault FindUniqueChat then (Inl (PrismaError StorageUnavailable), [FindUniqueChat])
      else case chats s chatId of
             Some c \<Rightarrow> (Inr (c, s), [FindUniqueChat])
           | None \<Rightarrow>
               if fault CreateChat
               then (Inl (PrismaError StorageUnavailable), [FindUniqueChat, CreateChat])
               else (Inr (\<lparr> chat_id = chatId, chat_userId = userId,
                             chat_title = Some (take 100 umc),
                             chat_createdAt = now, chat_updatedAt = now \<rparr>,
                          effect_get_or_create now chatId userId umc s),
                     [FindUniqueChat, CreateChat]))"
  by (simp add: ensure_chat_traced_def storage_call_def chat_findUnique_def chat_create_def
        effect_get_or_create_def Let_def split: option.splits)

lemma calls_until_fault_Cons:
  "calls_until_fault fault (c # cs) =
     (if fault c then [c] else c # calls_until_fault fault cs)"
  by (simp add: calls_until_fault_def)

lemma calls_until_fault_Nil: "calls_until_fault fault [] = []"
  by (simp add: calls_until_fault_def)

text \<open>
  The callback either stops at the first call the storage layer throws at, or leaves
  the store with the four effects applied one after the other; the calls it made are
  those of the source, in order, up to the one that threw.
\<close>

lemma save_callback_eq:
  "save_callback fault now chatId userId umc txt tok s =
     (if fault FindUniqueChat \<or> (chats s chatId = None \<and> fault CreateChat) \<or>
         fault CreateUserMessage \<or> fault CreateAssistantMessage \<or> fault UpdateChat
      then Inl (PrismaError StorageUnavailable)
      else Inr ((), effect_advance now chatId
                      (effect_append now chatId ''assistant'' txt (Some tok)
                         (effect_append now chatId ''user'' umc None
                            (effect_get_or_create now chatId userId umc s)))),
      calls_until_fault fault
        ([FindUniqueChat] @ (if chats s chatId = None then [CreateChat] else []) @
         [CreateUserMessage, CreateAssistantMessage, UpdateChat]))"
  unfolding save_callback_def ensure_chat_traced_eq storage_call_def
    message_create_def chat_update_def effect_advance_def effect_append_def
    effect_get_or_create_def
  by (auto simp: Let_def calls_until_fault_Cons calls_until_fault_Nil split: option.splits)

lemma transaction_save_eq:
  "transaction fault (save_callback fault now chatId userId umc txt tok) s =
     (if storage_throws fault s chatId
      then (Inl (PrismaError StorageUnavailable), s,
            calls_until_fault fault (commit_calls s chatId))
      else (Inr (), effect_advance now chatId
                      (effect_append now chatId ''assistant'' txt (Some tok)
                         (effect_append now chatId ''user'' umc None
                            (effect_get_or_create now chatId userId umc s))),
            commit_calls s chatId))"
  unfolding transaction_def save_callback_eq storage_throws_def storage_call_def commit_calls_def
  by (auto simp: calls_until_fault_Cons calls_until_fault_Nil)

lemma message_rows_effects:
  "message_rows (effect_advance now chatId
                   (effect_append now chatId r2 txt2 tok2
                      (effect_append now chatId r1 txt1 tok1
                         (effect_get_or_create now chatId userId umc s)))) =
     message_rows s @
       [\<lparr> msg_chatId = chatId, msg_role = r1, msg_content = txt1, msg_tokens = tok1,
          msg_createdAt = now \<rparr>,
        \<lparr> msg_chatId = chatId, msg_role = r2, msg_content = txt2, msg_tokens = tok2,
          msg_createdAt = now \<rparr>]"
  by (simp add: effect_advance_def effect_append_def effect_get_or_create_def
        split: option.splits)

text \<open>What \<open>collectAndSaveResponse\<close> comes to, case by case.\<close>

lemma collectAndSaveResponse_eq:
  "collectAndSaveResponse fault now strm chatId userId umc s =
     (case stream_error strm of
        Some err \<Rightarrow> (Inl err, s, [ConsoleError ''Error collecting and saving response:''], [])
      | None \<Rightarrow>
          if storage_throws fault s chatId
          then (Inl (PrismaError StorageUnavailable), s,
                [ConsoleError ''Error collecting and saving response:''],
                calls_until_fault fault (commit_calls s chatId))
          else (Inr (),
                effect_advance now chatId
                  (effect_append now chatId ''assistant'' (streamed_text (chunks strm))
                     (Some (case final_chunk (chunks strm) of
                              None \<Rightarrow> 0
                            | Some v \<Rightarrow>
                                (case chunk_usage v of None \<Rightarrow> 0 | Some u \<Rightarrow> completionTokens u)))
                     (effect_append now chatId ''user'' umc None
                        (effect_get_or_create now chatId userId umc s))),
                [ConsoleLog (''Chat '' @ chatId @ '': Saved messages'')],
                commit_calls s chatId))"
  unfolding collectAndSaveResponse_def Let_def transaction_save_eq
    collect_chunks_content collect_chunks_tokens
  by (simp split: option.splits)

lemma collectAndSaveResponse_success:
  assumes "collectAndSaveResponse fault now strm chatId userId umc s = (Inr (), s', fx)"
  shows "message_rows s' =
           message_rows s @
             [\<lparr> msg_chatId = chatId, msg_role = ''user'', msg_content = umc,
                msg_tokens = None, msg_createdAt = now \<rparr>,
              \<lparr> msg_chatId = chatId, msg_role = ''assistant'',
                msg_content = streamed_text (chunks strm),
                msg_tokens =
                  Some (case final_chunk (chunks strm) of
                          None \<Rightarrow> 0
                        | Some v \<Rightarrow>
                            (case chunk_usage v of None \<Rightarrow> 0 | Some u \<Rightarrow> completionTokens u)),
                msg_createdAt = now \<rparr>]"
  using assms unfolding collectAndSaveResponse_eq
  by (auto simp: message_rows_effects split: option.splits if_splits)

lemma collectAndSaveResponse_hello:
  "collectAndSaveResponse no_faults 7 hello_stream ''c1'' None ''hi'' empty_store =
     (Inr (),
      effect_advance 7 ''c1''
        (effect_append 7 ''c1'' ''assistant'' ''Hello'' (Some 2)
           (effect_append 7 ''c1'' ''user'' ''hi'' None
              (effect_get_or_create 7 ''c1'' None ''hi'' empty_store))),
      [ConsoleLog ''Chat c1: Saved messages''],
      [FindUniqueChat, CreateChat, CreateUserMessage, CreateAssistantMessage, UpdateChat,
       Commit])"
  unfolding collectAndSaveResponse_eq
  by (simp add: hello_stream_def hello_chunks_def storage_throws_def no_faults_def
        streamed_text_def final_chunk_def commit_calls_def empty_store_def)

text \<open>
  Claim C4. When the collector has read a stream to its close and the commit has
  succeeded, the content stored for the assistant message is the concatenation, in the
  order read, of the content of the chunks that were not marked done.
\<close>

theorem C4_stored_text_is_concatenation:
  assumes "collectAndSaveResponse fault now strm chatId userId umc s = (Inr (), s', fx)"
  shows "\<exists>u a. message_rows s' = message_rows s @ [u, a] \<and>
           msg_chatId a = chatId \<and> msg_role a = ''assistant'' \<and>
           msg_content a =
             concat (map chunk_content (filter (\<lambda>c. \<not> chunk_done c) (chunks strm)))"
  using collectAndSaveResponse_success [OF assms]
  by (simp add: streamed_text_def)

theorem C4_stored_text_is_concatenation_witness:
  "\<exists>u a. message_rows
            (fst (snd (collectAndSaveResponse no_faults 7 hello_stream ''c1'' None ''hi''
                         empty_store))) = [u, a] \<and>
         msg_role a = ''assistant'' \<and> msg_content a = ''Hello''"
  using C4_stored_text_is_concatenation [OF collectAndSaveResponse_hello]
  unfolding collectAndSaveResponse_hello
  by (auto simp: hello_stream_def hello_chunks_def empty_store_def)

text \<open>
  Claim C10. In every exchange the collector persists, the user message is stored with
  no token count, and the assistant message with the \<open>completionTokens\<close> of the last
  chunk marked done when that chunk carries usage, and with 0 when it carries none (or
  when no chunk was marked done).
\<close>

theorem C10_stored_token_counts:
  assumes "collectAndSaveResponse fault now strm chatId userId umc s = (Inr (), s', fx)"
  shows "\<exists>u a. message_rows s' = message_rows s @ [u, a] \<and>
           msg_role u = ''user'' \<and> msg_content u = umc \<and> msg_tokens u = None \<and>
           msg_role a = ''assistant'' \<and>
           msg_tokens a =
             Some (case final_chunk (chunks strm) of
                     None \<Rightarrow> 0
                   | Some v \<Rightarrow>
                       (case chunk_usage v of None \<Rightarrow> 0 | Some usage \<Rightarrow> completionTokens usage))"
  using collectAndSaveResponse_success [OF assms]
  by simp

theorem C10_stored_token_counts_witness:
  "\<exists>u a. message_rows
            (fst (snd (collectAndSaveResponse no_faults 7 hello_stream ''c1'' None ''hi''
                         empty_store))) = [u, a] \<and>
         msg_role u = ''user'' \<and> msg_tokens u = None \<and>
         msg_role a = ''assistant'' \<and> msg_tokens a = Some 2"
  using C10_stored_token_counts [OF collectAndSaveResponse_hello]
  unfolding collectAndSaveResponse_hello
  by (auto simp: hello_stream_def hello_chunks_def empty_store_def final_chunk_def)

text \<open>
  Claim C7. \<open>collectAndSaveResponse\<close>, on a stream that closed without error,
  either succeeds or fails. It succeeds exactly when the storage layer throws at none
  of the calls of the commit; then the calls made on the storage client are, in this
  order, the lookup of the conversation (followed by its creation when it was
  missing), the creation of the user message, the creation of the assistant message,
  the update of \<open>updatedAt\<close> and the commit, and the store is the old one with the
  four effects applied in that order. Otherwise the calls made are these same calls up
  to the first at which the storage layer throws, and the store is the old one. On a
  stream that ended in an error no call is made and the store is the old one.
\<close>

theorem C7_commit_all_or_nothing:
  assumes "collectAndSaveResponse fault now strm chatId userId umc s = (r, s', fx, made)"
  shows "(stream_error strm = None \<and> \<not> storage_throws fault s chatId \<longrightarrow>
            r = Inr () \<and>
            made = [FindUniqueChat] @ (if chats s chatId = None then [CreateChat] else []) @
                   [CreateUserMessage, CreateAssistantMessage, UpdateChat, Commit] \<and>
            s' = effect_advance now chatId
                   (effect_append now chatId ''assistant'' (streamed_text (chunks strm))
                      (Some (case final_chunk (chunks strm) of
                               None \<Rightarrow> 0
                             | Some v \<Rightarrow>
                                 (case chunk_usage v of None \<Rightarrow> 0 | Some u \<Rightarrow> completionTokens u)))
                      (effect_append now chatId ''user'' umc None
                         (effect_get_or_create now chatId userId umc s)))) \<and>
         (stream_error strm = None \<and> storage_throws fault s chatId \<longrightarrow>
            r = Inl (PrismaError StorageUnavailable) \<and> s' = s \<and>
            made = calls_until_fault fault (commit_calls s chatId)) \<and>
         (\<forall>err. stream_error strm = Some err \<longrightarrow> r = Inl err \<and> s' = s \<and> made = []) \<and>
         ((\<exists>err. r = Inl err) \<longrightarrow> s' = s)"
  using assms unfolding collectAndSaveResponse_eq
  by (auto simp: commit_calls_def split: option.splits if_splits)

theorem C7_commit_all_or_nothing_witness:
  "collectAndSaveResponse (fault_at CreateAssistantMessage) 7 hello_stream ''c1'' None ''hi''
     empty_store =
     (Inl (PrismaError StorageUnavailable), empty_store,
      [ConsoleError ''Error collecting and saving response:''],
      [FindUniqueChat, CreateChat, CreateUserMessage, CreateAssistantMessage]) \<and>
   fst (collectAndSaveResponse no_faults 7 hello_stream ''c1'' None ''hi'' empty_store) =
     Inr () \<and>
   snd (snd (snd (collectAndSaveResponse no_faults 7 hello_stream ''c1'' None ''hi''
                    empty_store))) =
     [FindUniqueChat, CreateChat, CreateUserMessage, CreateAssistantMessage, UpdateChat,
      Commit] \<and>
   message_rows
     (fst (snd (collectAndSaveResponse no_faults 7 hello_stream ''c1'' None ''hi''
                  empty_store))) =
     [\<lparr> msg_chatId = ''c1'', msg_role = ''user'', msg_content = ''hi'', msg_tokens = None,
        msg_createdAt = 7 \<rparr>,
      \<lparr> msg_chatId = ''c1'', msg_role = ''assistant'', msg_content = ''Hello'',
        msg_tokens = Some 2, msg_createdAt = 7 \<rparr>] \<and>
   chats
     (fst (snd (collectAndSaveResponse no_faults 7 hello_stream ''c1'' None ''hi''
                  empty_store))) ''c1'' =
     Some \<lparr> chat_id = ''c1'', chat_userId = None, chat_title = Some ''hi'',
            chat_createdAt = 7, chat_updatedAt = 7 \<rparr>"
proof -
  obtain r1 s1 fx1 made1 where
    t1: "collectAndSaveResponse (fault_at CreateAssistantMessage) 7 hello_stream ''c1'' None
           ''hi'' empty_store = (r1, s1, fx1, made1)"
    by (cases "collectAndSaveResponse (fault_at CreateAssistantMessage) 7 hello_stream ''c1''
                 None ''hi'' empty_store")
  obtain r2 s2 fx2 made2 where
    t2: "collectAndSaveResponse no_faults 7 hello_stream ''c1'' None ''hi'' empty_store =
           (r2, s2, fx2, made2)"
    by (cases "collectAndSaveResponse no_faults 7 hello_stream ''c1'' None ''hi'' empty_store")
  have closed: "stream_error hello_stream = None"
    by (simp add: hello_stream_def)
  have missing: "chats empty_store ''c1'' = None"
    by (simp add: empty_store_def)
  have throws: "storage_throws (fault_at CreateAssistantMessage) empty_store ''c1''"
    by (simp add: storage_throws_def fault_at_def)
  have quiet: "\<not> storage_throws no_faults empty_store ''c1''"
    by (simp add: storage_throws_def no_faults_def)
  have cut: "calls_until_fault (fault_at CreateAssistantMessage) (commit_calls empty_store ''c1'') =
               [FindUniqueChat, CreateChat, CreateUserMessage, CreateAssistantMessage]"
    by (simp add: commit_calls_def missing calls_until_fault_Cons fault_at_def)
  have logged: "fx1 = [ConsoleError ''Error collecting and saving response:'']"
    using t1 closed throws by (simp add: collectAndSaveResponse_eq)
  from C7_commit_all_or_nothing [OF t1] closed throws cut
  have first: "r1 = Inl (PrismaError StorageUnavailable)" "s1 = empty_store"
    "made1 = [FindUniqueChat, CreateChat, CreateUserMessage, CreateAssistantMessage]"
    by simp_all
  from C7_commit_all_or_nothing [OF t2] closed quiet missing
  have second: "r2 = Inr ()"
    "made2 = [FindUniqueChat, CreateChat, CreateUserMessage, CreateAssistantMessage,
              UpdateChat, Commit]"
    "s2 = effect_advance 7 ''c1''
            (effect_append 7 ''c1'' ''assistant'' (streamed_text (chunks hello_stream))
               (Some (case final_chunk (chunks hello_stream) of
                        None \<Rightarrow> 0
                      | Some v \<Rightarrow>
                          (case chunk_usage v of None \<Rightarrow> 0 | Some u \<Rightarrow> completionTokens u)))
               (effect_append 7 ''c1'' ''user'' ''hi'' None
                  (effect_get_or_create 7 ''c1'' None ''hi'' empty_store)))"
    by simp_all
  have rows: "message_rows s2 =
     [\<lparr> msg_chatId = ''c1'', msg_role = ''user'', msg_content = ''hi'', msg_tokens = None,
        msg_createdAt = 7 \<rparr>,
      \<lparr> msg_chatId = ''c1'', msg_role = ''assistant'', msg_content = ''Hello'',
        msg_tokens = Some 2, msg_createdAt = 7 \<rparr>]"
    unfolding second(3) message_rows_effects
    by (simp add: hello_stream_def hello_chunks_def streamed_text_def final_chunk_def
          empty_store_def)
  have chat: "chats s2 ''c1'' =
     Some \<lparr> chat_id = ''c1'', chat_userId = None, chat_title = Some ''hi'',
            chat_createdAt = 7, chat_updatedAt = 7 \<rparr>"
    unfolding second(3)
    by (simp add: effect_advance_def effect_append_def effect_get_or_create_def empty_store_def)
  show ?thesis
    unfolding t1 t2 using first second(1,2) logged rows chat by simp
qed

section \<open>The provider adapters\<close>

subsection \<open>Usage on the final chunk\<close>

text \<open>
  The Anthropic adapter builds the usage of its final chunk itself, from the final
  message, so every chunk it marks done carries usage that adds up.
\<close>

lemma anthropic_events_done_usage:
  "\<forall>c \<in> set (fst (anthropic_events fm u evs)). chunk_done c \<longrightarrow> usage_complete c"
  by (induction fm u evs rule: anthropic_events.induct)
     (auto simp: usage_complete_def anthropic_usage_def Let_def split: sum.splits prod.splits)

lemma anthropic_start_done_usage:
  "\<forall>c \<in> set (chunks (anthropic_start created)). chunk_done c \<longrightarrow> usage_complete c"
proof (cases created)
  case (Inl err)
  then show ?thesis by (simp add: anthropic_start_def)
next
  case (Inr st)
  obtain cs e where ev: "anthropic_events (an_finalMessage st) None (an_events st) = (cs, e)"
    by (cases "anthropic_events (an_finalMessage st) None (an_events st)")
  have "chunks (anthropic_start created) = cs"
    using Inr ev by (simp add: anthropic_start_def split: option.splits)
  moreover have "\<forall>c \<in> set cs. chunk_done c \<longrightarrow> usage_complete c"
    using anthropic_events_done_usage [of "an_finalMessage st" None "an_events st"] ev by simp
  ultimately show ?thesis by simp
qed

lemma AnthropicProvider_chatStream_chunks:
  "stream_chunks (AnthropicProvider_chatStream p b r) = [] \<or>
   (\<exists>created. stream_chunks (AnthropicProvider_chatStream p b r) = chunks (anthropic_start created))"
  by (auto simp: stream_chunks_def AnthropicProvider_chatStream_def split: option.splits sum.splits)

lemma AnthropicProvider_done_chunks_carry_usage:
  "\<forall>c \<in> set (stream_chunks (AnthropicProvider_chatStream p b r)).
     chunk_done c \<longrightarrow> usage_complete c"
  using AnthropicProvider_chatStream_chunks [of p b r] anthropic_start_done_usage
  by auto

text \<open>
  The OpenAI adapter takes the usage of a chunk it marks done from the backend chunk
  that carries the finish reason, and enqueues nothing for a backend chunk that has no
  choices.
\<close>

lemma openai_chunk_out_done:
  assumes "c \<in> set (openai_chunk_out k)" "chunk_done c"
  shows "truthy (oa_finish_reason k) \<and> chunk_usage c = map_option openai_usage (oc_usage k)"
  using assms by (auto simp: openai_chunk_out_def split: if_splits)

lemma openai_chunk_out_no_choices:
  assumes "oc_choices k = []"
  shows "openai_chunk_out k = []"
  using assms
  by (simp add: openai_chunk_out_def oa_delta_content_def oa_finish_reason_def truthy_def)

lemmas evaluate_chatStream =
  stream_chunks_def OpenAIProvider_chatStream_def OpenAIProvider_new_def openai_env_def
  hello_backend_def hi_request_def ChatSchema_parse_def messages_issues_def
  temperature_issues_def maxTokens_issues_def MessageRoleSchema_parse_def truthy_def
  openai_start_def openai_usage_last_def openai_chunk_out_def
  oa_delta_content_def oa_finish_reason_def or_else_def openai_usage_def Let_def

text \<open>
  Claim C1 says that the chunk marked done carries complete usage, from every adapter.
  The OpenAI adapter breaks it on the stream the backend sends when usage is asked for,
  as \<open>chatStream\<close> does ask: the text, then the chunk with the finish reason and no
  usage, then a last chunk that has no choices and carries the usage (3 prompt tokens,
  1 completion token, 4 in total). The adapter delivers the text and a chunk marked
  done that carries no usage; the usage the backend sent is lost.
\<close>

theorem C1_openai_done_chunk_without_usage:
  "map oc_usage (items openai_usage_last) =
     [None, None, Some \<lparr> prompt_tokens = 3, completion_tokens = 1, total_tokens = 4 \<rparr>] \<and>
   stream_chunks
     (OpenAIProvider_chatStream (OpenAIProvider_new openai_env) hello_backend hi_request) =
     [\<lparr> chunk_content = ''Hi'', chunk_done = False, chunk_model = Some ''gpt-4o-mini'',
        chunk_usage = None, chunk_finishReason = None \<rparr>,
      \<lparr> chunk_content = [], chunk_done = True, chunk_model = Some ''gpt-4o-mini'',
        chunk_usage = None, chunk_finishReason = Some ''stop'' \<rparr>]"
  by (simp add: evaluate_chatStream)

subsection \<open>Calls on an adapter that has no credential\<close>

lemmas evaluate_chat =
  OpenAIProvider_chat_def OpenAIProvider_chatStream_def OpenAIProvider_new_def
  AnthropicProvider_chat_def AnthropicProvider_chatStream_def AnthropicProvider_new_def
  OpenAIProvider_isConfigured_def AnthropicProvider_isConfigured_def
  openai_not_configured_def anthropic_not_configured_def

text \<open>
  Claim C3, as stated, fails: on an OpenAI adapter built without an API key both
  methods throw an \<open>LLMAPIError\<close>, which is not the provider-configuration error
  \<open>LLMProviderError\<close>.
\<close>

theorem C3_counterexample:
  "fst (OpenAIProvider_chat (OpenAIProvider_new no_key_env) hello_backend hi_request) =
     Inl (LLMAPIError
            ''OpenAI API key not configured. Set OPENAI_API_KEY environment variable.''
            ''OpenAI'' None) \<and>
   \<not> is_ProviderConfigError
       (fst (OpenAIProvider_chat (OpenAIProvider_new no_key_env) hello_backend hi_request)) \<and>
   fst (OpenAIProvider_chatStream (OpenAIProvider_new no_key_env) hello_backend hi_request) =
     Inl (LLMAPIError
            ''OpenAI API key not configured. Set OPENAI_API_KEY environment variable.''
            ''OpenAI'' None) \<and>
   \<not> is_ProviderConfigError
       (fst (OpenAIProvider_chatStream (OpenAIProvider_new no_key_env) hello_backend
          hi_request))"
  by (simp add: evaluate_chat no_key_env_def truthy_def is_ProviderConfigError_def)

text \<open>
  Claim C3, amended. On an adapter that is not configured, \<open>chat\<close> and
  \<open>chatStream\<close> fail at once with an \<open>LLMAPIError\<close> that names the provider and has
  no status code, whatever the request, and no request goes to the backend. The
  provider-configuration error is what the selector \<open>getProvider\<close> throws when the
  adapter it selected is not configured.
\<close>

theorem C3_unconfigured_adapter:
  "(\<not> OpenAIProvider_isConfigured (OpenAIProvider_new e) \<longrightarrow>
      OpenAIProvider_chat (OpenAIProvider_new e) b r =
        (Inl (LLMAPIError
                ''OpenAI API key not configured. Set OPENAI_API_KEY environment variable.''
                ''OpenAI'' None),
         [AdapterCall ''OpenAI'' ''chat'']) \<and>
      OpenAIProvider_chatStream (OpenAIProvider_new e) b r =
        (Inl (LLMAPIError
                ''OpenAI API key not configured. Set OPENAI_API_KEY environment variable.''
                ''OpenAI'' None),
         [AdapterCall ''OpenAI'' ''chatStream'']) \<and>
      no_network_call (snd (OpenAIProvider_chat (OpenAIProvider_new e) b r)) \<and>
      no_network_call (snd (OpenAIProvider_chatStream (OpenAIProvider_new e) b r))) \<and>
   (\<not> AnthropicProvider_isConfigured (AnthropicProvider_new e) \<longrightarrow>
      AnthropicProvider_chat (AnthropicProvider_new e) b r =
        (Inl (LLMAPIError
                ''Anthropic API key not configured. Set ANTHROPIC_API_KEY environment variable.''
                ''Anthropic'' None),
         [AdapterCall ''Anthropic'' ''chat'']) \<and>
      AnthropicProvider_chatStream (AnthropicProvider_new e) b r =
        (Inl (LLMAPIError
                ''Anthropic API key not configured. Set ANTHROPIC_API_KEY environment variable.''
                ''Anthropic'' None),
         [AdapterCall ''Anthropic'' ''chatStream'']) \<and>
      no_network_call (snd (AnthropicProvider_chat (AnthropicProvider_new e) b r)) \<and>
      no_network_call (snd (AnthropicProvider_chatStream (AnthropicProvider_new e) b r))) \<and>
   (\<forall>provider. getProvider e = Inr provider \<longrightarrow> LLMProvider_isConfigured provider) \<and>
   (toLowerCase (or_else (LLM_PROVIDER e) ''openai'') = ''openai'' \<and>
    \<not> OpenAIProvider_isConfigured (OpenAIProvider_new e) \<longrightarrow>
      is_ProviderConfigError (getProvider e)) \<and>
   (toLowerCase (or_else (LLM_PROVIDER e) ''openai'') = ''anthropic'' \<and>
    \<not> AnthropicProvider_isConfigured (AnthropicProvider_new e) \<longrightarrow>
      is_ProviderConfigError (getProvider e))"
proof (intro conjI impI allI)
  assume "\<not> OpenAIProvider_isConfigured (OpenAIProvider_new e)"
  then have none: "oa_client (OpenAIProvider_new e) = None"
    by (simp add: OpenAIProvider_isConfigured_def)
  show "OpenAIProvider_chat (OpenAIProvider_new e) b r =
        (Inl (LLMAPIError
                ''OpenAI API key not configured. Set OPENAI_API_KEY environment variable.''
                ''OpenAI'' None),
         [AdapterCall ''OpenAI'' ''chat''])"
    by (simp add: OpenAIProvider_chat_def none openai_not_configured_def)
  then show "no_network_call (snd (OpenAIProvider_chat (OpenAIProvider_new e) b r))"
    by (simp add: no_network_call_def)
  show "OpenAIProvider_chatStream (OpenAIProvider_new e) b r =
        (Inl (LLMAPIError
                ''OpenAI API key not configured. Set OPENAI_API_KEY environment variable.''
                ''OpenAI'' None),
         [AdapterCall ''OpenAI'' ''chatStream''])"
    by (simp add: OpenAIProvider_chatStream_def none openai_not_configured_def)
  then show "no_network_call (snd (OpenAIProvider_chatStream (OpenAIProvider_new e) b r))"
    by (simp add: no_network_call_def)
next
  assume "\<not> AnthropicProvider_isConfigured (AnthropicProvider_new e)"
  then have none: "an_client (AnthropicProvider_new e) = None"
    by (auto simp: AnthropicProvider_isConfigured_def AnthropicProvider_new_def Let_def
          split: if_splits)
  show "AnthropicProvider_chat (AnthropicProvider_new e) b r =
        (Inl (LLMAPIError
                ''Anthropic API key not configured. Set ANTHROPIC_API_KEY environment variable.''
                ''Anthropic'' None),
         [AdapterCall ''Anthropic'' ''chat''])"
    by (simp add: AnthropicProvider_chat_def none anthropic_not_configured_def)
  then show "no_network_call (snd (AnthropicProvider_chat (AnthropicProvider_new e) b r))"
    by (simp add: no_network_call_def)
  show "AnthropicProvider_chatStream (AnthropicProvider_new e) b r =
        (Inl (LLMAPIError
                ''Anthropic API key not configured. Set ANTHROPIC_API_KEY environment variable.''
                ''Anthropic'' None),
         [AdapterCall ''Anthropic'' ''chatStream''])"
    by (simp add: AnthropicProvider_chatStream_def none anthropic_not_configured_def)
  then show "no_network_call (snd (AnthropicProvider_chatStream (AnthropicProvider_new e) b r))"
    by (simp add: no_network_call_def)
next
  fix provider
  assume "getProvider e = Inr provider"
  then show "LLMProvider_isConfigured provider"
    by (auto simp: getProvider_def Let_def split: if_splits)
next
  assume "toLowerCase (or_else (LLM_PROVIDER e) ''openai'') = ''openai'' \<and>
          \<not> OpenAIProvider_isConfigured (OpenAIProvider_new e)"
  then show "is_ProviderConfigError (getProvider e)"
    by (simp add: getProvider_def is_ProviderConfigError_def)
next
  assume "toLowerCase (or_else (LLM_PROVIDER e) ''openai'') = ''anthropic'' \<and>
          \<not> AnthropicProvider_isConfigured (AnthropicProvider_new e)"
  then show "is_ProviderConfigError (getProvider e)"
    by (simp add: getProvider_def is_ProviderConfigError_def)
qed

theorem C3_unconfigured_adapter_witness:
  "\<not> OpenAIProvider_isConfigured (OpenAIProvider_new no_key_env) \<and>
   \<not> AnthropicProvider_isConfigured (AnthropicProvider_new no_key_env) \<and>
   is_LLMAPIError (fst (OpenAIProvider_chat (OpenAIProvider_new no_key_env) hello_backend hi_request)) \<and>
   is_LLMAPIError (fst (AnthropicProvider_chatStream (AnthropicProvider_new no_key_env) hello_backend hi_request)) \<and>
   snd (AnthropicProvider_chatStream (AnthropicProvider_new no_key_env) hello_backend hi_request) =
     [AdapterCall ''Anthropic'' ''chatStream''] \<and>
   is_ProviderConfigError (getProvider no_key_env)"
proof -
  have oa: "\<not> OpenAIProvider_isConfigured (OpenAIProvider_new no_key_env)"
    by (simp add: OpenAIProvider_isConfigured_def OpenAIProvider_new_def no_key_env_def truthy_def)
  have an: "\<not> AnthropicProvider_isConfigured (AnthropicProvider_new no_key_env)"
    by (simp add: AnthropicProvider_isConfigured_def AnthropicProvider_new_def no_key_env_def
          truthy_def)
  have sel: "toLowerCase (or_else (LLM_PROVIDER no_key_env) ''openai'') = ''openai''"
    by (simp add: no_key_env_def or_else_def toLowerCase_def lower_char_def)
  from C3_unconfigured_adapter [of no_key_env hello_backend hi_request] oa an sel
  show ?thesis
    by (simp add: is_LLMAPIError_def)
qed

section \<open>The chat route\<close>

lemma error_response_Json: "\<exists>j. body (fst (error_response err)) = Json j"
  by (cases err) (simp_all add: error_response_def)

lemma error_response_ZodError:
  "error_response (ZodError issues) =
     (\<lparr> status = 400, body = Json (ValidationErrorBody issues), x_provider = None \<rparr>, [])"
  by (simp add: error_response_def)

text \<open>
  A run of \<open>POST\<close> either answers with a JSON body, and then neither the answer nor
  the effects depend on the storage layer, which is left alone; or it has validated the
  request, found its last message to be the user's, selected a provider and obtained
  a stream, and then it answers 200 with that stream whatever the collector does.
\<close>

lemma POST_cases:
  "(\<exists>resp fx j. body resp = Json j \<and>
      (\<forall>fault now s. POST e b fault now rq s =
         \<lparr> post_response = resp, post_effects = fx, post_store = s \<rparr>)) \<or>
   (\<exists>validated userMessage provider llmStream fx.
      ChatSchema_parse (request_input rq) = Inr validated \<and>
      last_message (messages validated) = Some userMessage \<and>
      role userMessage = user \<and>
      getCurrentProviderName e = Inr provider \<and>
      chatStream e b validated = (Inr llmStream, fx) \<and>
      (\<forall>fault now s. POST e b fault now rq s =
         \<lparr> post_response = \<lparr> status = 200, body = Stream llmStream, x_provider = Some provider \<rparr>,
           post_effects =
             fx @ fst (snd (snd (collectAndSaveResponse fault now llmStream (body_chatId rq)
                              (body_userId rq) (content userMessage) s))) @
             (case fst (collectAndSaveResponse fault now llmStream (body_chatId rq)
                          (body_userId rq) (content userMessage) s) of
                Inl _ \<Rightarrow> [ConsoleError ''Failed to save messages to database:'']
              | Inr _ \<Rightarrow> []),
           post_store = fst (snd (collectAndSaveResponse fault now llmStream (body_chatId rq)
                              (body_userId rq) (content userMessage) s)) \<rparr>))"
proof (cases "ChatSchema_parse (request_input rq)")
  case (Inl err)
  from error_response_Json [of err] obtain j where "body (fst (error_response err)) = Json j" ..
  then show ?thesis using Inl
    by (intro disjI1 exI [of _ "fst (error_response err)"] exI [of _ "snd (error_response err)"]
          exI [of _ j]) (simp add: POST_def)
next
  case (Inr validated)
  note v = Inr
  show ?thesis
  proof (cases "last_message (messages validated)")
    case None
    then show ?thesis using v
      by (intro disjI1) (simp add: POST_def)
  next
    case (Some userMessage)
    note um = Some
    show ?thesis
    proof (cases "role userMessage = user")
      case False
      then show ?thesis using v um
        by (intro disjI1) (simp add: POST_def)
    next
      case True
      note ru = True
      show ?thesis
      proof (cases "getCurrentProviderName e")
        case (Inl err)
        from error_response_Json [of err] obtain j where "body (fst (error_response err)) = Json j" ..
        then show ?thesis using v um ru Inl
          by (intro disjI1 exI [of _ "fst (error_response err)"] exI [of _ "snd (error_response err)"]
                exI [of _ j]) (simp add: POST_def)
      next
        case (Inr provider)
        note pr = Inr
        obtain res fx where cs: "chatStream e b validated = (res, fx)"
          by (cases "chatStream e b validated")
        show ?thesis
        proof (cases res)
          case (Inl err)
          from error_response_Json [of err] obtain j where "body (fst (error_response err)) = Json j" ..
          then show ?thesis using v um ru pr cs Inl
            by (intro disjI1 exI [of _ "fst (error_response err)"]
                  exI [of _ "fx @ snd (error_response err)"] exI [of _ j]) (simp add: POST_def)
        next
          case (Inr llmStream)
          then show ?thesis using v um ru pr cs
            by (intro disjI2 exI [of _ validated] exI [of _ userMessage] exI [of _ provider]
                  exI [of _ llmStream] exI [of _ fx])
               (simp add: POST_def tee_def split: prod.splits)
        qed
      qed
    qed
  qed
qed

text \<open>A stream is obtained by one call of one adapter, which sends one request.\<close>

lemma chatStream_calls_once:
  assumes "chatStream e b validated = (Inr llmStream, fx)"
  shows "\<exists>name. fx = [AdapterCall name ''chatStream'', NetworkCall name]"
proof -
  from assms obtain v provider where
    p: "LLMProvider_chatStream provider b (as_input v) = (Inr llmStream, fx)"
    by (auto simp: chatStream_def split: sum.splits)
  show ?thesis
  proof (cases provider)
    case (OpenAI q)
    with p show ?thesis
      by (auto simp: OpenAIProvider_chatStream_def split: option.splits sum.splits)
  next
    case (Anthropic q)
    with p show ?thesis
      by (auto simp: AnthropicProvider_chatStream_def split: option.splits sum.splits)
  qed
qed

lemma valid_not_user_role:
  assumes "role_in m \<in> {''user'', ''assistant'', ''system''}" "role_in m \<noteq> ''user''"
  shows "role (MessageSchema_output m) \<noteq> user"
  using assms by (auto simp: MessageSchema_output_def MessageRoleSchema_parse_def)

lemmas evaluate_POST =
  POST_def request_input_def hi_body_def assistant_last_body_def ChatSchema_parse_def
  messages_issues_def temperature_issues_def maxTokens_issues_def MessageRoleSchema_parse_def
  MessageSchema_output_def last_message_def getCurrentProviderName_def getProvider_def
  toLowerCase_def lower_char_def or_else_def truthy_def openai_env_def
  OpenAIProvider_new_def OpenAIProvider_isConfigured_def OpenAIProvider_getName_def
  chatStream_def as_input_def role_string_def OpenAIProvider_chatStream_def
  openai_start_def hello_backend_def openai_usage_last_def openai_chunk_out_def
  oa_delta_content_def oa_finish_reason_def tee_def Let_def

lemma POST_hi_body_response:
  "post_response (POST openai_env hello_backend fault now hi_body s) =
     \<lparr> status = 200,
       body = Stream
         \<lparr> chunks =
             [\<lparr> chunk_content = ''Hi'', chunk_done = False, chunk_model = Some ''gpt-4o-mini'',
                chunk_usage = None, chunk_finishReason = None \<rparr>,
              \<lparr> chunk_content = [], chunk_done = True, chunk_model = Some ''gpt-4o-mini'',
                chunk_usage = None, chunk_finishReason = Some ''stop'' \<rparr>],
           stream_error = None \<rparr>,
       x_provider = Some ''OpenAI'' \<rparr>"
  by (simp add: evaluate_POST split: prod.splits)

text \<open>
  Claim C8. A request whose last message is not the user's (or that has no message at
  all) is answered with status 400; no adapter method is entered, no request goes to a
  backend, and the store is left as it was.
\<close>

theorem C8_last_message_must_be_user:
  assumes "body_messages rq = [] \<or> role_in (last (body_messages rq)) \<noteq> ''user''"
  shows "status (post_response (POST e b fault now rq s)) = 400 \<and>
         (\<exists>j. body (post_response (POST e b fault now rq s)) = Json j) \<and>
         post_effects (POST e b fault now rq s) = [] \<and>
         no_adapter_call (post_effects (POST e b fault now rq s)) \<and>
         no_network_call (post_effects (POST e b fault now rq s)) \<and>
         post_store (POST e b fault now rq s) = s"
proof -
  have "status (post_response (POST e b fault now rq s)) = 400 \<and>
        (\<exists>j. body (post_response (POST e b fault now rq s)) = Json j) \<and>
        post_effects (POST e b fault now rq s) = [] \<and>
        post_store (POST e b fault now rq s) = s"
  proof (cases "ChatSchema_parse (request_input rq)")
    case (Inl err)
    with ChatSchema_parse_Inl [of "request_input rq" err] obtain issues
      where "err = ZodError issues" by blast
    with Inl show ?thesis
      by (simp add: POST_def error_response_ZodError)
  next
    case (Inr validated)
    let ?ms = "body_messages rq"
    have ms: "messages validated = map MessageSchema_output ?ms"
      by (subst ChatSchema_parse_Inr_fields [OF Inr]) (simp add: request_input_def)
    from Inr have "messages_issues (messages_in (request_input rq)) = []"
      using ChatSchema_parse_Inr_iff [of "request_input rq"] by blast
    then have valid: "?ms \<noteq> []"
      "\<forall>m \<in> set ?ms. role_in m \<in> {''user'', ''assistant'', ''system''}"
      unfolding messages_issues_Nil_iff by (simp_all add: request_input_def)
    with assms have "role_in (last ?ms) \<noteq> ''user''" by blast
    moreover from valid have "role_in (last ?ms) \<in> {''user'', ''assistant'', ''system''}"
      by simp
    ultimately have "role (MessageSchema_output (last ?ms)) \<noteq> user"
      by (rule valid_not_user_role [rotated])
    moreover have "last_message (messages validated) = Some (MessageSchema_output (last ?ms))"
      using valid(1) by (cases ?ms) (simp_all add: ms last_message_def last_map)
    ultimately show ?thesis using Inr
      by (simp add: POST_def)
  qed
  then show ?thesis
    by (simp add: no_adapter_call_def no_network_call_def)
qed

theorem C8_last_message_must_be_user_witness:
  "role_in (last (body_messages assistant_last_body)) \<noteq> ''user'' \<and>
   post_response (POST openai_env hello_backend no_faults 5 assistant_last_body empty_store) =
     \<lparr> status = 400, body = Json (ErrorBody ''Last message must be from user''),
       x_provider = None \<rparr> \<and>
   post_effects (POST openai_env hello_backend no_faults 5 assistant_last_body empty_store) = [] \<and>
   post_effects (POST openai_env hello_backend no_faults 5 hi_body empty_store) \<noteq> []"
proof -
  have last: "role_in (last (body_messages assistant_last_body)) \<noteq> ''user''"
    by (simp add: assistant_last_body_def hi_body_def)
  then have "body_messages assistant_last_body = [] \<or>
             role_in (last (body_messages assistant_last_body)) \<noteq> ''user''" ..
  from C8_last_message_must_be_user [OF this, of openai_env hello_backend no_faults 5 empty_store]
  have "post_effects (POST openai_env hello_backend no_faults 5 assistant_last_body empty_store) = []"
    by blast
  moreover have
    "post_response (POST openai_env hello_backend no_faults 5 assistant_last_body empty_store) =
       \<lparr> status = 400, body = Json (ErrorBody ''Last message must be from user''),
         x_provider = None \<rparr>"
    by (simp add: evaluate_POST)
  moreover have
    "post_effects (POST openai_env hello_backend no_faults 5 hi_body empty_store) \<noteq> []"
    by (simp add: evaluate_POST split: prod.splits)
  ultimately show ?thesis using last by blast
qed

text \<open>
  Claim C6. The answer of \<open>POST\<close> does not depend on the storage layer: it is the
  answer of the run in which the storage layer never throws. When the answer is a
  stream that closed without error and the storage layer throws during the commit, the
  status is 200, the store is left as it was, and beyond the one adapter call and the
  one backend request that produced the stream the run has no effect but two lines on
  the console.
\<close>

theorem C6_persistence_failure_only_logged:
  "post_response (POST e b fault now rq s) = post_response (POST e b no_faults now rq s) \<and>
   (\<forall>strm. body (post_response (POST e b fault now rq s)) = Stream strm \<and>
           stream_error strm = None \<and> storage_throws fault s (body_chatId rq) \<longrightarrow>
      status (post_response (POST e b fault now rq s)) = 200 \<and>
      post_store (POST e b fault now rq s) = s \<and>
      (\<exists>name. post_effects (POST e b fault now rq s) =
         [AdapterCall name ''chatStream'', NetworkCall name,
          ConsoleError ''Error collecting and saving response:'',
          ConsoleError ''Failed to save messages to database:'']))"
  using POST_cases [of e b rq]
proof (elim disjE exE conjE)
  fix resp fx j
  assume "\<forall>fault now s. POST e b fault now rq s =
            \<lparr> post_response = resp, post_effects = fx, post_store = s \<rparr>"
    and "body resp = Json j"
  then show ?thesis by simp
next
  fix validated userMessage provider llmStream fx
  assume cs: "chatStream e b validated = (Inr llmStream, fx)"
    and post: "\<forall>fault now s. POST e b fault now rq s =
         \<lparr> post_response = \<lparr> status = 200, body = Stream llmStream, x_provider = Some provider \<rparr>,
           post_effects =
             fx @ fst (snd (snd (collectAndSaveResponse fault now llmStream (body_chatId rq)
                              (body_userId rq) (content userMessage) s))) @
             (case fst (collectAndSaveResponse fault now llmStream (body_chatId rq)
                          (body_userId rq) (content userMessage) s) of
                Inl _ \<Rightarrow> [ConsoleError ''Failed to save messages to database:'']
              | Inr _ \<Rightarrow> []),
           post_store = fst (snd (collectAndSaveResponse fault now llmStream (body_chatId rq)
                              (body_userId rq) (content userMessage) s)) \<rparr>"
  from chatStream_calls_once [OF cs] obtain name
    where fx: "fx = [AdapterCall name ''chatStream'', NetworkCall name]" ..
  have same: "post_response (POST e b fault now rq s) =
              post_response (POST e b no_faults now rq s)"
    by (simp add: post)
  have "status (post_response (POST e b fault now rq s)) = 200 \<and>
        post_store (POST e b fault now rq s) = s \<and>
        (\<exists>name. post_effects (POST e b fault now rq s) =
           [AdapterCall name ''chatStream'', NetworkCall name,
            ConsoleError ''Error collecting and saving response:'',
            ConsoleError ''Failed to save messages to database:''])"
    if "body (post_response (POST e b fault now rq s)) = Stream strm"
      "stream_error strm = None" "storage_throws fault s (body_chatId rq)" for strm
  proof -
    from that(1) have "strm = llmStream" by (simp add: post)
    with that(2,3) show ?thesis
      by (simp add: post collectAndSaveResponse_eq fx)
  qed
  with same show ?thesis by blast
qed

theorem C6_persistence_failure_only_logged_witness:
  "status (post_response
     (POST openai_env hello_backend (fault_at CreateAssistantMessage) 5 hi_body empty_store)) = 200 \<and>
   post_response
     (POST openai_env hello_backend (fault_at CreateAssistantMessage) 5 hi_body empty_store) =
   post_response (POST openai_env hello_backend no_faults 5 hi_body empty_store) \<and>
   post_store
     (POST openai_env hello_backend (fault_at CreateAssistantMessage) 5 hi_body empty_store) =
   empty_store \<and>
   (\<exists>name. post_effects
       (POST openai_env hello_backend (fault_at CreateAssistantMessage) 5 hi_body empty_store) =
       [AdapterCall name ''chatStream'', NetworkCall name,
        ConsoleError ''Error collecting and saving response:'',
        ConsoleError ''Failed to save messages to database:''])"
proof -
  let ?strm =
    "\<lparr> chunks =
         [\<lparr> chunk_content = ''Hi'', chunk_done = False, chunk_model = Some ''gpt-4o-mini'',
            chunk_usage = None, chunk_finishReason = None \<rparr>,
          \<lparr> chunk_content = [], chunk_done = True, chunk_model = Some ''gpt-4o-mini'',
            chunk_usage = None, chunk_finishReason = Some ''stop'' \<rparr>],
       stream_error = None \<rparr>"
  have "body (post_response
          (POST openai_env hello_backend (fault_at CreateAssistantMessage) 5 hi_body empty_store)) =
        Stream ?strm"
    by (simp add: POST_hi_body_response)
  moreover have "stream_error ?strm = None" by simp
  moreover have "storage_throws (fault_at CreateAssistantMessage) empty_store
                   (body_chatId hi_body)"
    by (simp add: storage_throws_def fault_at_def)
  ultimately show ?thesis
    using C6_persistence_failure_only_logged
      [of openai_env hello_backend "fault_at CreateAssistantMessage" 5 hi_body empty_store]
    by blast
qed

section \<open>Get-or-create of a conversation\<close>

lemma ensure_chat_existing:
  assumes "\<not> fault FindUniqueChat" "chats s chatId = Some c"
  shows "ensure_chat fault now chatId userId umc s = Inr (c, s)"
  using assms by (simp add: ensure_chat_eq chat_findUnique_def)

lemma ensure_chat_missing:
  assumes "\<not> fault FindUniqueChat" "\<not> fault CreateChat" "chats s chatId = None"
  shows "ensure_chat fault now chatId userId umc s =
           Inr (\<lparr> chat_id = chatId, chat_userId = userId, chat_title = Some (take 100 umc),
                  chat_createdAt = now, chat_updatedAt = now \<rparr>,
                s\<lparr> chats := (chats s)(chatId \<mapsto>
                     \<lparr> chat_id = chatId, chat_userId = userId, chat_title = Some (take 100 umc),
                       chat_createdAt = now, chat_updatedAt = now \<rparr>) \<rparr>)"
  using assms by (simp add: ensure_chat_eq chat_findUnique_def chat_create_def Let_def)

lemma ensure_chat_lookup:
  assumes "ensure_chat fault now chatId userId umc s = Inr (c, s1)"
  shows "chats s1 chatId = Some c \<and> \<not> fault FindUniqueChat"
  using assms
  by (auto simp: ensure_chat_eq chat_findUnique_def chat_create_def Let_def
        split: if_splits option.splits)

text \<open>
  Claim C2, as stated, fails for \<open>getOrCreateChat\<close>: called with the id of a
  conversation that does not exist it throws \<open>ChatNotFoundError\<close> and creates nothing.
\<close>

theorem C2_counterexample:
  "getOrCreateChat no_faults 0 ''generated'' empty_store (Some ''c1'') None (Some ''hi'') =
     (Inl (ChatNotFoundError ''c1''), empty_store)"
  by (simp add: getOrCreateChat_def chat_findUnique_def no_faults_def empty_store_def truthy_def
        or_else_def)

text \<open>
  Claim C2, amended. While the storage layer does not throw: the get-or-create step of
  the persistence commit returns the conversation with the given id when there is one,
  leaving the store as it is, and otherwise creates it, titled with the first 100
  characters of the user message that triggered the commit; a second run of the step
  with the same id returns the conversation of the first run and leaves the store as
  the first run left it. The repository function \<open>getOrCreateChat\<close>, given a non-empty
  id, returns the conversation with its messages when there is one and throws
  \<open>ChatNotFoundError\<close> when there is none, leaving the store as it is in both cases;
  given no id it creates a conversation under a generated id.
\<close>

theorem C2_get_or_create:
  "(\<not> fault FindUniqueChat \<and> \<not> fault CreateChat \<longrightarrow>
      (\<forall>c. chats s chatId = Some c \<longrightarrow>
         ensure_chat fault now chatId userId umc s = Inr (c, s)) \<and>
      (chats s chatId = None \<longrightarrow>
         ensure_chat fault now chatId userId umc s =
           Inr (\<lparr> chat_id = chatId, chat_userId = userId, chat_title = Some (take 100 umc),
                  chat_createdAt = now, chat_updatedAt = now \<rparr>,
                s\<lparr> chats := (chats s)(chatId \<mapsto>
                     \<lparr> chat_id = chatId, chat_userId = userId, chat_title = Some (take 100 umc),
                       chat_createdAt = now, chat_updatedAt = now \<rparr>) \<rparr>)) \<and>
      (\<exists>c s1. ensure_chat fault now chatId userId umc s = Inr (c, s1) \<and>
         ensure_chat fault now' chatId userId' umc' s1 = Inr (c, s1))) \<and>
   (\<not> fault FindUniqueChat \<and> chatId \<noteq> [] \<longrightarrow>
      (\<forall>c. chats s chatId = Some c \<longrightarrow>
         getOrCreateChat fault now generated s (Some chatId) userId title =
           (Inr (c, chat_messages s chatId), s)) \<and>
      (chats s chatId = None \<longrightarrow>
         getOrCreateChat fault now generated s (Some chatId) userId title =
           (Inl (ChatNotFoundError chatId), s))) \<and>
   (\<not> fault CreateChat \<and> chats s generated = None \<longrightarrow>
      getOrCreateChat fault now generated s None userId title =
        (Inr (\<lparr> chat_id = generated, chat_userId = userId, chat_title = title,
                chat_createdAt = now, chat_updatedAt = now \<rparr>,
              filter (\<lambda>m. msg_chatId m = generated) (message_rows s)),
         s\<lparr> chats := (chats s)(generated \<mapsto>
              \<lparr> chat_id = generated, chat_userId = userId, chat_title = title,
                chat_createdAt = now, chat_updatedAt = now \<rparr>) \<rparr>))"
proof (intro conjI impI allI)
  fix c
  assume "\<not> fault FindUniqueChat \<and> \<not> fault CreateChat" "chats s chatId = Some c"
  then show "ensure_chat fault now chatId userId umc s = Inr (c, s)"
    by (simp add: ensure_chat_existing)
next
  assume "\<not> fault FindUniqueChat \<and> \<not> fault CreateChat" "chats s chatId = None"
  then show "ensure_chat fault now chatId userId umc s =
           Inr (\<lparr> chat_id = chatId, chat_userId = userId, chat_title = Some (take 100 umc),
                  chat_createdAt = now, chat_updatedAt = now \<rparr>,
                s\<lparr> chats := (chats s)(chatId \<mapsto>
                     \<lparr> chat_id = chatId, chat_userId = userId, chat_title = Some (take 100 umc),
                       chat_createdAt = now, chat_updatedAt = now \<rparr>) \<rparr>)"
    by (simp add: ensure_chat_missing)
next
  assume ok: "\<not> fault FindUniqueChat \<and> \<not> fault CreateChat"
  obtain c s1 where first: "ensure_chat fault now chatId userId umc s = Inr (c, s1)"
    using ok ensure_chat_existing [of fault s chatId _ now userId umc]
      ensure_chat_missing [of fault s chatId now userId umc]
    by (cases "chats s chatId") auto
  from ensure_chat_lookup [OF first] ok
  have "ensure_chat fault now' chatId userId' umc' s1 = Inr (c, s1)"
    by (simp add: ensure_chat_existing)
  with first
  show "\<exists>c s1. ensure_chat fault now chatId userId umc s = Inr (c, s1) \<and>
          ensure_chat fault now' chatId userId' umc' s1 = Inr (c, s1)"
    by blast
next
  fix c
  assume "\<not> fault FindUniqueChat \<and> chatId \<noteq> []" "chats s chatId = Some c"
  then show "getOrCreateChat fault now generated s (Some chatId) userId title =
           (Inr (c, chat_messages s chatId), s)"
    by (simp add: getOrCreateChat_def chat_findUnique_def truthy_def or_else_def)
next
  assume "\<not> fault FindUniqueChat \<and> chatId \<noteq> []" "chats s chatId = None"
  then show "getOrCreateChat fault now generated s (Some chatId) userId title =
           (Inl (ChatNotFoundError chatId), s)"
    by (simp add: getOrCreateChat_def chat_findUnique_def truthy_def or_else_def)
next
  assume "\<not> fault CreateChat \<and> chats s generated = None"
  then show "getOrCreateChat fault now generated s None userId title =
        (Inr (\<lparr> chat_id = generated, chat_userId = userId, chat_title = title,
                chat_createdAt = now, chat_updatedAt = now \<rparr>,
              filter (\<lambda>m. msg_chatId m = generated) (message_rows s)),
         s\<lparr> chats := (chats s)(generated \<mapsto>
              \<lparr> chat_id = generated, chat_userId = userId, chat_title = title,
                chat_createdAt = now, chat_updatedAt = now \<rparr>) \<rparr>)"
    by (simp add: getOrCreateChat_def chat_create_def truthy_def Let_def)
qed

theorem C2_get_or_create_witness:
  "ensure_chat no_faults 7 ''c1'' None ''hi'' empty_store =
     Inr (\<lparr> chat_id = ''c1'', chat_userId = None, chat_title = Some ''hi'',
            chat_createdAt = 7, chat_updatedAt = 7 \<rparr>,
          empty_store\<lparr> chats := (chats empty_store)(''c1'' \<mapsto>
            \<lparr> chat_id = ''c1'', chat_userId = None, chat_title = Some ''hi'',
              chat_createdAt = 7, chat_updatedAt = 7 \<rparr>) \<rparr>) \<and>
   ensure_chat no_faults 9 ''c1'' None ''again''
     (empty_store\<lparr> chats := (chats empty_store)(''c1'' \<mapsto>
        \<lparr> chat_id = ''c1'', chat_userId = None, chat_title = Some ''hi'',
          chat_createdAt = 7, chat_updatedAt = 7 \<rparr>) \<rparr>) =
     Inr (\<lparr> chat_id = ''c1'', chat_userId = None, chat_title = Some ''hi'',
            chat_createdAt = 7, chat_updatedAt = 7 \<rparr>,
          empty_store\<lparr> chats := (chats empty_store)(''c1'' \<mapsto>
            \<lparr> chat_id = ''c1'', chat_userId = None, chat_title = Some ''hi'',
              chat_createdAt = 7, chat_updatedAt = 7 \<rparr>) \<rparr>) \<and>
   getOrCreateChat no_faults 9 ''generated''
     (empty_store\<lparr> chats := (chats empty_store)(''c1'' \<mapsto>
        \<lparr> chat_id = ''c1'', chat_userId = None, chat_title = Some ''hi'',
          chat_createdAt = 7, chat_updatedAt = 7 \<rparr>) \<rparr>) (Some ''c1'') None None =
     (Inr (\<lparr> chat_id = ''c1'', chat_userId = None, chat_title = Some ''hi'',
             chat_createdAt = 7, chat_updatedAt = 7 \<rparr>, []),
      empty_store\<lparr> chats := (chats empty_store)(''c1'' \<mapsto>
        \<lparr> chat_id = ''c1'', chat_userId = None, chat_title = Some ''hi'',
          chat_createdAt = 7, chat_updatedAt = 7 \<rparr>) \<rparr>)"
proof -
  let ?c = "\<lparr> chat_id = ''c1'', chat_userId = None, chat_title = Some ''hi'',
               chat_createdAt = 7, chat_updatedAt = 7 \<rparr>"
  let ?s1 = "empty_store\<lparr> chats := (chats empty_store)(''c1'' \<mapsto> ?c) \<rparr>"
  have quiet: "\<not> no_faults FindUniqueChat" "\<not> no_faults CreateChat"
    by (simp_all add: no_faults_def)
  have missing: "chats empty_store ''c1'' = None" by (simp add: empty_store_def)
  have present: "chats ?s1 ''c1'' = Some ?c" by simp
  have none: "chat_messages ?s1 ''c1'' = []" by (simp add: chat_messages_def empty_store_def)
  from C2_get_or_create [of no_faults empty_store "''c1''" 7 None "''hi''"] quiet missing
  have first: "ensure_chat no_faults 7 ''c1'' None ''hi'' empty_store = Inr (?c, ?s1)"
    by simp
  from C2_get_or_create [of no_faults ?s1 "''c1''" 9 None "''again''" 0 None "''''" "''generated''" None]
    quiet present none
  have second: "ensure_chat no_faults 9 ''c1'' None ''again'' ?s1 = Inr (?c, ?s1)"
    and repo: "getOrCreateChat no_faults 9 ''generated'' ?s1 (Some ''c1'') None None =
                 (Inr (?c, []), ?s1)"
    by simp_all
  from first second repo show ?thesis by blast
qed

end
